theory Spec2Isabelle
  imports Complex_Main "HOL-Library.Sublist"
begin

section \<open>Values exchanged with the server\<close>

text \<open>
  What \<^verbatim>\<open>response.json()\<close> hands to the client: a Python value built from JSON.
  \<open>JNull\<close> is Python's \<^verbatim>\<open>None\<close>, which is also what \<^verbatim>\<open>dict.get\<close> gives for a
  key that is not there. A parsed object has each key once; it is kept as an
  association list in the order of the body. The payload of \<open>JFloat\<close> is never
  inspected by the client.
\<close>

datatype json =
    JNull
  | JBool bool
  | JInt int
  | JFloat rat
  | JStr string
  | JArr "json list"
  | JObj "(string \<times> json) list"

text \<open>
  The exceptions that can leave a method of the client. \<open>OutlineServerErrorException\<close>
  is the class of the source (the specification calls it ServerError); \<open>CertificateMismatch\<close>
  is raised by the fingerprint check; the other three are raised by the Python runtime
  and by \<^verbatim>\<open>requests\<close> when a body is not what the code takes it to be.
\<close>

datatype error =
    OutlineServerErrorException string
  | CertificateMismatch
  | JSONDecodeError
  | TypeError
  | AttributeError

text \<open>
  The dataclass \<^verbatim>\<open>OutlineKey\<close>. Its annotations (\<^verbatim>\<open>int\<close>, \<^verbatim>\<open>str\<close>) are not enforced by
  Python: every field holds whatever value the constructor was given.
\<close>

record OutlineKey =
  key_id :: json
  name :: json
  password :: json
  port :: json
  "method" :: json
  access_url :: json
  used_bytes :: json

record OutlineVPN =
  api_url :: string

section \<open>The HTTP transport\<close>

datatype http_method = GET | POST | PUT | DELETE

text \<open>
  The body of a request: nothing, the \<^verbatim>\<open>json=\<close> argument, or the \<^verbatim>\<open>files=\<close> argument
  (a multipart form; each field with its file name, \<^verbatim>\<open>None\<close> here, and its content).
\<close>

datatype payload =
    NoPayload
  | JsonPayload json
  | FilesPayload "(string \<times> string option \<times> string) list"

record request =
  http_method :: http_method
  url :: string
  payload :: payload
  verify :: bool

text \<open>
  A completed exchange: the status code and the body as \<^verbatim>\<open>response.json()\<close> reads it,
  \<open>None\<close> when the body is not JSON.
\<close>

record response =
  status_code :: int
  json_body :: "json option"

text \<open>
  The server and the network are a state \<open>'w\<close> and a function that answers a request
  and moves the state on.
\<close>

type_synonym 'w transport = "request \<Rightarrow> 'w \<Rightarrow> response \<times> 'w"

definition requests_get :: "string \<Rightarrow> request" where
  "requests_get u = \<lparr>http_method = GET, url = u, payload = NoPayload, verify = False\<rparr>"

definition requests_post :: "string \<Rightarrow> request" where
  "requests_post u = \<lparr>http_method = POST, url = u, payload = NoPayload, verify = False\<rparr>"

definition requests_delete :: "string \<Rightarrow> request" where
  "requests_delete u = \<lparr>http_method = DELETE, url = u, payload = NoPayload, verify = False\<rparr>"

definition requests_put :: "string \<Rightarrow> payload \<Rightarrow> request" where
  "requests_put u p = \<lparr>http_method = PUT, url = u, payload = p, verify = False\<rparr>"

section \<open>The Python operations the client applies to a body\<close>

definition and_then :: "error + 'a \<Rightarrow> ('a \<Rightarrow> error + 'b) \<Rightarrow> error + 'b" where
  "and_then r f = (case r of Inl e \<Rightarrow> Inl e | Inr v \<Rightarrow> f v)"

text \<open>\<^verbatim>\<open>response.json()\<close>\<close>

definition response_json :: "response \<Rightarrow> error + json" where
  "response_json r = (case json_body r of None \<Rightarrow> Inl JSONDecodeError | Some j \<Rightarrow> Inr j)"

text \<open>
  \<^verbatim>\<open>k in v\<close> for a string \<open>k\<close>: a key of a dict, an element of a list, a substring of
  a string; a type error on a value that is not a container.
\<close>

fun py_in :: "string \<Rightarrow> json \<Rightarrow> error + bool" where
  "py_in k (JObj kvs) = Inr (k \<in> set (map fst kvs))"
| "py_in k (JArr xs) = Inr (JStr k \<in> set xs)"
| "py_in k (JStr s) = Inr (sublist k s)"
| "py_in k v = Inl TypeError"

text \<open>\<^verbatim>\<open>d.get(k)\<close> on a dict: the value under \<open>k\<close>, or \<^verbatim>\<open>None\<close>.\<close>

definition dict_get :: "(string \<times> json) list \<Rightarrow> string \<Rightarrow> json" where
  "dict_get kvs k = (case map_of kvs k of None \<Rightarrow> JNull | Some v \<Rightarrow> v)"

text \<open>\<^verbatim>\<open>v.get(k)\<close> for a string \<open>k\<close>: only a dict has the method.\<close>

fun py_get :: "json \<Rightarrow> string \<Rightarrow> error + json" where
  "py_get (JObj kvs) k = Inr (dict_get kvs k)"
| "py_get v k = Inl AttributeError"

text \<open>
  \<^verbatim>\<open>v.get(k)\<close> for a key \<open>k\<close> that is itself a value read from a body. The keys of a
  parsed object are strings, so only a string can be found; a list or a dict is not
  hashable.
\<close>

fun py_get_value :: "json \<Rightarrow> json \<Rightarrow> error + json" where
  "py_get_value (JObj kvs) (JStr k) = Inr (dict_get kvs k)"
| "py_get_value (JObj kvs) (JArr xs) = Inl TypeError"
| "py_get_value (JObj kvs) (JObj xs) = Inl TypeError"
| "py_get_value (JObj kvs) k = Inr JNull"
| "py_get_value v k = Inl AttributeError"

text \<open>
  The values a \<^verbatim>\<open>for\<close> loop takes from \<open>v\<close>: the elements of a list, the keys of a
  dict, the characters of a string; a type error otherwise.
\<close>

fun py_iter :: "json \<Rightarrow> error + json list" where
  "py_iter (JArr xs) = Inr xs"
| "py_iter (JObj kvs) = Inr (map (\<lambda>kv. JStr (fst kv)) kvs)"
| "py_iter (JStr s) = Inr (map (\<lambda>c. JStr [c]) s)"
| "py_iter v = Inl TypeError"

section \<open>Listing the keys\<close>

text \<open>
  One pass of the loop of \<^verbatim>\<open>get_keys\<close>: the keyword arguments of \<^verbatim>\<open>OutlineKey(...)\<close>
  are evaluated in the order they are written.
\<close>

definition get_keys_item :: "response \<Rightarrow> json \<Rightarrow> error + OutlineKey" where
  "get_keys_item response_metrics key =
     and_then (py_get key ''id'') (\<lambda>v_id.
     and_then (py_get key ''name'') (\<lambda>v_name.
     and_then (py_get key ''password'') (\<lambda>v_password.
     and_then (py_get key ''port'') (\<lambda>v_port.
     and_then (py_get key ''method'') (\<lambda>v_method.
     and_then (py_get key ''accessUrl'') (\<lambda>v_access_url.
     and_then (response_json response_metrics) (\<lambda>metrics.
     and_then (py_get metrics ''bytesTransferredByUserId'') (\<lambda>by_user.
     and_then (py_get key ''id'') (\<lambda>v_id2.
     and_then (py_get_value by_user v_id2) (\<lambda>v_used.
       Inr \<lparr>key_id = v_id, name = v_name, password = v_password, port = v_port,
            method = v_method, access_url = v_access_url, used_bytes = v_used\<rparr>))))))))))"

fun get_keys_loop :: "response \<Rightarrow> json list \<Rightarrow> OutlineKey list \<Rightarrow> error + OutlineKey list" where
  "get_keys_loop response_metrics [] result = Inr result"
| "get_keys_loop response_metrics (key # keys) result =
     (case get_keys_item response_metrics key of
        Inl e \<Rightarrow> Inl e
      | Inr k \<Rightarrow> get_keys_loop response_metrics keys (result @ [k]))"

definition get_keys :: "'w transport \<Rightarrow> OutlineVPN \<Rightarrow> 'w \<Rightarrow> (error + OutlineKey list) \<times> 'w" where
  "get_keys send self w =
     (let (response, w1) = send (requests_get (api_url self @ ''/access-keys/'')) w in
      if status_code response \<noteq> 200
      then (Inl (OutlineServerErrorException ''Unable to retrieve keys''), w1)
      else
        (case and_then (response_json response) (py_in ''accessKeys'') of
           Inl e \<Rightarrow> (Inl e, w1)
         | Inr False \<Rightarrow> (Inl (OutlineServerErrorException ''Unable to retrieve keys''), w1)
         | Inr True \<Rightarrow>
             (let (response_metrics, w2) =
                    send (requests_get (api_url self @ ''/metrics/transfer'')) w1 in
              if status_code response_metrics \<ge> 400
              then (Inl (OutlineServerErrorException ''Unable to get metrics''), w2)
              else
                (case and_then (response_json response_metrics)
                        (py_in ''bytesTransferredByUserId'') of
                   Inl e \<Rightarrow> (Inl e, w2)
                 | Inr False \<Rightarrow> (Inl (OutlineServerErrorException ''Unable to get metrics''), w2)
                 | Inr True \<Rightarrow>
                     (and_then (response_json response) (\<lambda>body.
                      and_then (py_get body ''accessKeys'') (\<lambda>access_keys.
                      and_then (py_iter access_keys) (\<lambda>keys.
                        get_keys_loop response_metrics keys []))), w2)))))"

section \<open>Operations on one key\<close>

text \<open>
  The f-strings of the source put \<^verbatim>\<open>key_id\<close> into the URL through Python's \<^verbatim>\<open>str\<close>.
  The rendering belongs to the Python runtime, not to the client: it is the parameter
  \<open>fmt\<close> of every operation that builds such a URL.
\<close>

definition delete_key ::
  "(json \<Rightarrow> string) \<Rightarrow> 'w transport \<Rightarrow> OutlineVPN \<Rightarrow> json \<Rightarrow> 'w \<Rightarrow> (error + bool) \<times> 'w" where
  "delete_key fmt send self kid w =
     (let (response, w1) =
            send (requests_delete (api_url self @ ''/access-keys/'' @ fmt kid)) w in
      (Inr (status_code response = 204), w1))"

definition rename_key ::
  "(json \<Rightarrow> string) \<Rightarrow> 'w transport \<Rightarrow> OutlineVPN \<Rightarrow> json \<Rightarrow> string \<Rightarrow> 'w \<Rightarrow> (error + bool) \<times> 'w" where
  "rename_key fmt send self kid nm w =
     (let files = FilesPayload [(''name'', None, nm)];
          (response, w1) =
            send (requests_put (api_url self @ ''/access-keys/'' @ fmt kid @ ''/name'') files) w in
      (Inr (status_code response = 204), w1))"

definition add_data_limit ::
  "(json \<Rightarrow> string) \<Rightarrow> 'w transport \<Rightarrow> OutlineVPN \<Rightarrow> json \<Rightarrow> int \<Rightarrow> 'w \<Rightarrow> (error + bool) \<times> 'w" where
  "add_data_limit fmt send self kid limit_bytes w =
     (let data = JsonPayload (JObj [(''limit'', JObj [(''bytes'', JInt limit_bytes)])]);
          (response, w1) =
            send (requests_put (api_url self @ ''/access-keys/'' @ fmt kid @ ''/data-limit'') data) w in
      (Inr (status_code response = 204), w1))"

definition delete_data_limit ::
  "(json \<Rightarrow> string) \<Rightarrow> 'w transport \<Rightarrow> OutlineVPN \<Rightarrow> json \<Rightarrow> 'w \<Rightarrow> (error + bool) \<times> 'w" where
  "delete_data_limit fmt send self kid w =
     (let (response, w1) =
            send (requests_delete (api_url self @ ''/access-keys/'' @ fmt kid @ ''/data-limit'')) w in
      (Inr (status_code response = 204), w1))"

section \<open>Creating a key\<close>

text \<open>The value of \<^verbatim>\<open>key_name\<close> as a condition: \<^verbatim>\<open>None\<close> and the empty string are false.\<close>

definition truthy :: "string option \<Rightarrow> bool" where
  "truthy s = (case s of None \<Rightarrow> False | Some n \<Rightarrow> n \<noteq> [])"

text \<open>The call \<^verbatim>\<open>OutlineKey(...)\<close> of \<^verbatim>\<open>create_key\<close>, with \<^verbatim>\<open>used_bytes=0\<close>.\<close>

definition create_key_record :: "json \<Rightarrow> error + OutlineKey" where
  "create_key_record key =
     and_then (py_get key ''id'') (\<lambda>v_id.
     and_then (py_get key ''name'') (\<lambda>v_name.
     and_then (py_get key ''password'') (\<lambda>v_password.
     and_then (py_get key ''port'') (\<lambda>v_port.
     and_then (py_get key ''method'') (\<lambda>v_method.
     and_then (py_get key ''accessUrl'') (\<lambda>v_access_url.
       Inr \<lparr>key_id = v_id, name = v_name, password = v_password, port = v_port,
            method = v_method, access_url = v_access_url, used_bytes = JInt 0\<rparr>))))))"

definition create_key ::
  "(json \<Rightarrow> string) \<Rightarrow> 'w transport \<Rightarrow> OutlineVPN \<Rightarrow> string option \<Rightarrow> 'w \<Rightarrow> (error + OutlineKey) \<times> 'w" where
  "create_key fmt send self key_name w =
     (let (response, w1) = send (requests_post (api_url self @ ''/access-keys/'')) w in
      if status_code response = 201
      then
        (case and_then (response_json response) create_key_record of
           Inl e \<Rightarrow> (Inl e, w1)
         | Inr outline_key \<Rightarrow>
             if truthy key_name
             then
               (case rename_key fmt send self (key_id outline_key) (the key_name) w1 of
                  (Inl e, w2) \<Rightarrow> (Inl e, w2)
                | (Inr renamed, w2) \<Rightarrow>
                    (Inr (if renamed then outline_key\<lparr>name := JStr (the key_name)\<rparr>
                          else outline_key), w2))
             else (Inr outline_key, w1))
      else (Inl (OutlineServerErrorException ''Unable to create key''), w1))"

section \<open>Metrics and server settings\<close>

definition get_transferred_data :: "'w transport \<Rightarrow> OutlineVPN \<Rightarrow> 'w \<Rightarrow> (error + json) \<times> 'w" where
  "get_transferred_data send self w =
     (let (response, w1) = send (requests_get (api_url self @ ''/metrics/transfer'')) w in
      if status_code response \<ge> 400
      then (Inl (OutlineServerErrorException ''Unable to get metrics''), w1)
      else
        (case and_then (response_json response) (py_in ''bytesTransferredByUserId'') of
           Inl e \<Rightarrow> (Inl e, w1)
         | Inr False \<Rightarrow> (Inl (OutlineServerErrorException ''Unable to get metrics''), w1)
         | Inr True \<Rightarrow> (response_json response, w1)))"

definition set_server_name :: "'w transport \<Rightarrow> OutlineVPN \<Rightarrow> string \<Rightarrow> 'w \<Rightarrow> (error + bool) \<times> 'w" where
  "set_server_name send self nm w =
     (let data = JsonPayload (JObj [(''name'', JStr nm)]);
          (response, w1) = send (requests_put (api_url self @ ''/name'') data) w in
      (Inr (status_code response = 204), w1))"

definition set_hostname :: "'w transport \<Rightarrow> OutlineVPN \<Rightarrow> string \<Rightarrow> 'w \<Rightarrow> (error + bool) \<times> 'w" where
  "set_hostname send self hostname w =
     (let data = JsonPayload (JObj [(''hostname'', JStr hostname)]);
          (response, w1) =
            send (requests_put (api_url self @ ''/server/hostname-for-access-keys'') data) w in
      (Inr (status_code response = 204), w1))"

definition get_metrics_status :: "'w transport \<Rightarrow> OutlineVPN \<Rightarrow> 'w \<Rightarrow> (error + json) \<times> 'w" where
  "get_metrics_status send self w =
     (let (response, w1) = send (requests_get (api_url self @ ''/metrics/enabled'')) w in
      (and_then (response_json response) (\<lambda>body. py_get body ''metricsEnabled''), w1))"

definition set_metrics_status :: "'w transport \<Rightarrow> OutlineVPN \<Rightarrow> bool \<Rightarrow> 'w \<Rightarrow> (error + bool) \<times> 'w" where
  "set_metrics_status send self status w =
     (let data = JsonPayload (JObj [(''metricsEnabled'', JBool status)]);
          (response, w1) = send (requests_put (api_url self @ ''/metrics/enabled'') data) w in
      (Inr (status_code response = 204), w1))"

definition set_port_new_for_access_keys ::
  "'w transport \<Rightarrow> OutlineVPN \<Rightarrow> int \<Rightarrow> 'w \<Rightarrow> (error + bool) \<times> 'w" where
  "set_port_new_for_access_keys send self prt w =
     (let data = JsonPayload (JObj [(''port'', JInt prt)]);
          (response, w1) =
            send (requests_put (api_url self @ ''/server/port-for-new-access-keys'') data) w in
      if status_code response = 400
      then (Inl (OutlineServerErrorException
        ''The requested port wasn't an integer from 1 through 65535, or the request had no port parameter.''), w1)
      else if status_code response = 409
      then (Inl (OutlineServerErrorException
        ''The requested port was already in use by another service.''), w1)
      else (Inr (status_code response = 204), w1))"

definition set_data_limit_for_all_keys ::
  "'w transport \<Rightarrow> OutlineVPN \<Rightarrow> int \<Rightarrow> 'w \<Rightarrow> (error + bool) \<times> 'w" where
  "set_data_limit_for_all_keys send self limit_bytes w =
     (let data = JsonPayload (JObj [(''limit'', JObj [(''bytes'', JInt limit_bytes)])]);
          (response, w1) =
            send (requests_put (api_url self @ ''/server/access-key-data-limit'') data) w in
      (Inr (status_code response = 204), w1))"

definition delete_data_limit_for_all_keys ::
  "'w transport \<Rightarrow> OutlineVPN \<Rightarrow> 'w \<Rightarrow> (error + bool) \<times> 'w" where
  "delete_data_limit_for_all_keys send self w =
     (let (response, w1) =
            send (requests_delete (api_url self @ ''/server/access-key-data-limit'')) w in
      (Inr (status_code response = 204), w1))"

section \<open>Constructing the client\<close>

text \<open>
  Modelled from the spec: \<^verbatim>\<open>check_ssl_fingerprint\<close> of \<^verbatim>\<open>outline_vpn.utils\<close>, which
  is not among the sources. The specification has it connect once to the host of the
  base URL, take the fingerprint of the certificate presented there, and fail with
  \<open>CertificateMismatch\<close> when it differs from the expected one, compared without regard
  to case. The connection is the environment's: \<open>tls\<close> answers a URL with the
  fingerprint of the certificate its host presents.
\<close>

type_synonym 'w tls = "string \<Rightarrow> 'w \<Rightarrow> string \<times> 'w"

definition ascii_lower :: "char \<Rightarrow> char" where
  "ascii_lower c =
     (case map_of (zip ''ABCDEFGHIJKLMNOPQRSTUVWXYZ'' ''abcdefghijklmnopqrstuvwxyz'') c of
        None \<Rightarrow> c
      | Some l \<Rightarrow> l)"

definition check_ssl_fingerprint :: "'w tls \<Rightarrow> string \<Rightarrow> string \<Rightarrow> 'w \<Rightarrow> (error + unit) \<times> 'w" where
  "check_ssl_fingerprint tls u expected w =
     (let (presented, w1) = tls u w in
      if map ascii_lower presented = map ascii_lower expected
      then (Inr (), w1)
      else (Inl CertificateMismatch, w1))"

text \<open>\<^verbatim>\<open>OutlineVPN.__init__\<close>\<close>

definition OutlineVPN_init ::
  "'w tls \<Rightarrow> string \<Rightarrow> string option \<Rightarrow> 'w \<Rightarrow> (error + OutlineVPN) \<times> 'w" where
  "OutlineVPN_init tls u cert_sha256 w =
     (if truthy cert_sha256
      then
        (case check_ssl_fingerprint tls u (the cert_sha256) w of
           (Inl e, w1) \<Rightarrow> (Inl e, w1)
         | (Inr _, w1) \<Rightarrow> (Inr \<lparr>api_url = u\<rparr>, w1))
      else (Inr \<lparr>api_url = u\<rparr>, w))"

text \<open>A connection made through \<open>counting tls\<close> is counted in the second component of the state.\<close>

definition counting :: "'w tls \<Rightarrow> ('w \<times> nat) tls" where
  "counting tls u s = (let (presented, w1) = tls u (fst s) in (presented, (w1, Suc (snd s))))"

section \<open>Servers for the examples\<close>

text \<open>
  A server without state that answers from a table of method, URL and response, and
  with 404 and no JSON body elsewhere.
\<close>

definition route :: "(http_method \<times> string \<times> response) list \<Rightarrow> unit transport" where
  "route table req w =
     (case map_of (map (\<lambda>(m, u, r). ((m, u), r)) table) (http_method req, url req) of
        None \<Rightarrow> (\<lparr>status_code = 404, json_body = None\<rparr>, w)
      | Some r \<Rightarrow> (r, w))"

text \<open>
  A rendering of identifiers for the examples, as Python's \<^verbatim>\<open>str\<close> renders a string (itself),
  an integer (in decimal), a boolean and \<^verbatim>\<open>None\<close>. A float, a list and a dict, which no
  example uses as an identifier, are not rendered.
\<close>

fun decimal :: "nat \<Rightarrow> string" where
  "decimal n =
     (if n < 10 then [''0123456789'' ! n]
      else decimal (n div 10) @ [''0123456789'' ! (n mod 10)])"

declare decimal.simps [simp del]

definition fmt_example :: "json \<Rightarrow> string" where
  "fmt_example v =
     (case v of
        JStr s \<Rightarrow> s
      | JInt i \<Rightarrow> (if i < 0 then ''-'' @ decimal (nat (- i)) else decimal (nat i))
      | JBool b \<Rightarrow> (if b then ''True'' else ''False'')
      | JNull \<Rightarrow> ''None''
      | _ \<Rightarrow> [])"

text \<open>The example of the specification: one key, and its transfer count.\<close>

definition example_keys_body :: json where
  "example_keys_body =
     JObj [(''accessKeys'',
       JArr [JObj [(''id'', JStr ''1''), (''name'', JStr ''a''), (''password'', JStr ''p''),
                   (''port'', JInt 8388), (''method'', JStr ''aes-128-gcm''),
                   (''accessUrl'', JStr ''ss://...'')]])]"

definition example_metrics_body :: json where
  "example_metrics_body = JObj [(''bytesTransferredByUserId'', JObj [(''1'', JInt 1000)])]"

definition example_key :: OutlineKey where
  "example_key =
     \<lparr>key_id = JStr ''1'', name = JStr ''a'', password = JStr ''p'', port = JInt 8388,
      method = JStr ''aes-128-gcm'', access_url = JStr ''ss://...'', used_bytes = JInt 1000\<rparr>"

definition example_server :: "unit transport" where
  "example_server =
     route [(GET, ''https://vpn.example:443/SecretPath/access-keys/'',
               \<lparr>status_code = 200, json_body = Some example_keys_body\<rparr>),
            (GET, ''https://vpn.example:443/SecretPath/metrics/transfer'',
               \<lparr>status_code = 200, json_body = Some example_metrics_body\<rparr>)]"

definition example_client :: OutlineVPN where
  "example_client = \<lparr>api_url = ''https://vpn.example:443/SecretPath''\<rparr>"

text \<open>
  A listing of three keys, of which the metrics of the example know only the first: the
  second has an identifier without a count, the third an identifier that is a number.
\<close>

definition listing_entries :: "(string \<times> json) list list" where
  "listing_entries =
     [[(''id'', JStr ''1''), (''name'', JStr ''a''), (''password'', JStr ''p''),
       (''port'', JInt 8388), (''method'', JStr ''aes-128-gcm''),
       (''accessUrl'', JStr ''ss://...'')],
      [(''id'', JStr ''2''), (''name'', JStr ''b''), (''password'', JStr ''q''),
       (''port'', JInt 8389), (''method'', JStr ''aes-128-gcm''),
       (''accessUrl'', JStr ''ss://,,,'')],
      [(''id'', JInt 3), (''name'', JStr ''c'')]]"

definition listing_server :: "unit transport" where
  "listing_server =
     route [(GET, ''https://vpn.example:443/SecretPath/access-keys/'',
               \<lparr>status_code = 200,
                json_body = Some (JObj [(''accessKeys'', JArr (map JObj listing_entries))])\<rparr>),
            (GET, ''https://vpn.example:443/SecretPath/metrics/transfer'',
               \<lparr>status_code = 200, json_body = Some example_metrics_body\<rparr>)]"

section \<open>The specification's reading of the responses\<close>

text \<open>
  A body has a field when it is a JSON object with that key. A body that is not JSON,
  or is JSON of another kind, lacks every field.
\<close>

definition has_field :: "string \<Rightarrow> response \<Rightarrow> bool" where
  "has_field k r = (case json_body r of Some (JObj kvs) \<Rightarrow> k \<in> set (map fst kvs) | _ \<Rightarrow> False)"

text \<open>
  The errors of listing the keys as the specification has them: the first error exactly
  when the first call has a status other than 200 or its body lacks \<^verbatim>\<open>accessKeys\<close>, the
  second exactly when the first call was good and the metrics call has a status other
  than 200 or its body lacks \<^verbatim>\<open>bytesTransferredByUserId\<close>.
\<close>

definition list_keys_errors_as_specified ::
  "response \<Rightarrow> response \<Rightarrow> error + OutlineKey list \<Rightarrow> bool" where
  "list_keys_errors_as_specified response response_metrics outcome =
     ((outcome = Inl (OutlineServerErrorException ''Unable to retrieve keys'')
         \<longleftrightarrow> status_code response \<noteq> 200 \<or> \<not> has_field ''accessKeys'' response)
    \<and> (outcome = Inl (OutlineServerErrorException ''Unable to get metrics'')
         \<longleftrightarrow> (status_code response = 200 \<and> has_field ''accessKeys'' response)
             \<and> (status_code response_metrics \<noteq> 200
                  \<or> \<not> has_field ''bytesTransferredByUserId'' response_metrics)))"

text \<open>
  Reading the transfer counts as the specification has it: the body on status 200 with
  the field, the server error otherwise.
\<close>

definition transferred_data_as_specified :: "response \<Rightarrow> error + json \<Rightarrow> bool" where
  "transferred_data_as_specified response outcome =
     (if status_code response = 200 \<and> has_field ''bytesTransferredByUserId'' response
      then outcome = response_json response
      else outcome = Inl (OutlineServerErrorException ''Unable to get metrics''))"

section \<open>Servers for the examples of the error paths\<close>

text \<open>Responses that lack what the client looks for, and servers that give them.\<close>

definition no_keys_response :: response where
  "no_keys_response = \<lparr>status_code = 200, json_body = Some (JObj [(''accessKeys'', JArr [])])\<rparr>"

definition not_json_response :: response where
  "not_json_response = \<lparr>status_code = 200, json_body = None\<rparr>"

definition metrics_not_json_server :: "unit transport" where
  "metrics_not_json_server =
     route [(GET, ''https://vpn.example:443/SecretPath/access-keys/'', no_keys_response),
            (GET, ''https://vpn.example:443/SecretPath/metrics/transfer'', not_json_response)]"

definition metrics_down_server :: "unit transport" where
  "metrics_down_server =
     route [(GET, ''https://vpn.example:443/SecretPath/access-keys/'', no_keys_response),
            (GET, ''https://vpn.example:443/SecretPath/metrics/transfer'',
               \<lparr>status_code = 503, json_body = None\<rparr>)]"

definition metrics_created_response :: response where
  "metrics_created_response = \<lparr>status_code = 201, json_body = Some example_metrics_body\<rparr>"

definition metrics_created_server :: "unit transport" where
  "metrics_created_server =
     route [(GET, ''https://vpn.example:443/SecretPath/metrics/transfer'', metrics_created_response)]"

definition no_fields_response :: response where
  "no_fields_response = \<lparr>status_code = 200, json_body = Some (JObj [])\<rparr>"

definition metrics_enabled_server :: "response \<Rightarrow> unit transport" where
  "metrics_enabled_server r =
     route [(GET, ''https://vpn.example:443/SecretPath/metrics/enabled'', r)]"

text \<open>
  A host whose certificate has a given fingerprint, and servers that answer one request
  with a given status.
\<close>

definition presenting :: "string \<Rightarrow> unit tls" where
  "presenting fingerprint u w = (fingerprint, w)"

definition port_server :: "int \<Rightarrow> unit transport" where
  "port_server status =
     route [(PUT, ''https://vpn.example:443/SecretPath/server/port-for-new-access-keys'',
               \<lparr>status_code = status, json_body = None\<rparr>)]"

definition delete_server :: "int \<Rightarrow> unit transport" where
  "delete_server status =
     route [(DELETE, ''https://vpn.example:443/SecretPath/access-keys/1'',
               \<lparr>status_code = status, json_body = None\<rparr>)]"

text \<open>
  A server that creates key \<^verbatim>\<open>"7"\<close>, with the empty name of a new key, and answers the
  rename of that key with a given status.
\<close>

definition created_fields :: "(string \<times> json) list" where
  "created_fields =
     [(''id'', JStr ''7''), (''name'', JStr ''''), (''password'', JStr ''p''),
      (''port'', JInt 8388), (''method'', JStr ''aes-128-gcm''),
      (''accessUrl'', JStr ''ss://...'')]"

definition created_response :: response where
  "created_response = \<lparr>status_code = 201, json_body = Some (JObj created_fields)\<rparr>"

definition created_key :: OutlineKey where
  "created_key =
     \<lparr>key_id = JStr ''7'', name = JStr '''', password = JStr ''p'', port = JInt 8388,
      method = JStr ''aes-128-gcm'', access_url = JStr ''ss://...'', used_bytes = JInt 0\<rparr>"

definition create_server :: "int \<Rightarrow> response \<Rightarrow> unit transport" where
  "create_server rename_status metrics =
     route [(POST, ''https://vpn.example:443/SecretPath/access-keys/'', created_response),
            (PUT, ''https://vpn.example:443/SecretPath/access-keys/7/name'',
               \<lparr>status_code = rename_status, json_body = None\<rparr>),
            (GET, ''https://vpn.example:443/SecretPath/metrics/transfer'', metrics)]"

text \<open>The server of the specification's example, which also creates and renames key \<^verbatim>\<open>"7"\<close>.\<close>

definition whole_server :: "unit transport" where
  "whole_server =
     route [(GET, ''https://vpn.example:443/SecretPath/access-keys/'',
               \<lparr>status_code = 200, json_body = Some example_keys_body\<rparr>),
            (GET, ''https://vpn.example:443/SecretPath/metrics/transfer'',
               \<lparr>status_code = 200, json_body = Some example_metrics_body\<rparr>),
            (POST, ''https://vpn.example:443/SecretPath/access-keys/'', created_response),
            (PUT, ''https://vpn.example:443/SecretPath/access-keys/7/name'',
               \<lparr>status_code = 204, json_body = None\<rparr>)]"

section \<open>Listing the keys: the loop and the checks\<close>

lemma get_keys_item_Inr:
  assumes "get_keys_item rm key = Inr k"
  shows "\<exists>kvs metrics by_user. key = JObj kvs \<and> json_body rm = Some metrics
           \<and> py_get metrics ''bytesTransferredByUserId'' = Inr (JObj by_user)
           \<and> py_get_value (JObj by_user) (dict_get kvs ''id'') = Inr (used_bytes k)
           \<and> k = \<lparr>key_id = dict_get kvs ''id'', name = dict_get kvs ''name'',
                   password = dict_get kvs ''password'', port = dict_get kvs ''port'',
                   method = dict_get kvs ''method'', access_url = dict_get kvs ''accessUrl'',
                   used_bytes = used_bytes k\<rparr>"
proof (cases key)
  case (JObj kvs)
  show ?thesis
  proof (cases "json_body rm")
    case None
    with assms JObj show ?thesis
      by (simp add: get_keys_item_def and_then_def response_json_def)
  next
    case (Some metrics)
    show ?thesis
    proof (cases "py_get metrics ''bytesTransferredByUserId''")
      case (Inl e)
      with assms JObj Some show ?thesis
        by (simp add: get_keys_item_def and_then_def response_json_def)
    next
      case (Inr by_user)
      with assms JObj Some show ?thesis
        by (cases by_user)
           (auto simp add: get_keys_item_def and_then_def response_json_def split: sum.splits)
    qed
  qed
qed (use assms in \<open>simp_all add: get_keys_item_def and_then_def\<close>)

lemma get_keys_loop_Inr:
  "get_keys_loop rm keys acc = Inr result \<Longrightarrow>
     \<exists>ks. result = acc @ ks \<and> list_all2 (\<lambda>key k. get_keys_item rm key = Inr k) keys ks"
proof (induction keys arbitrary: acc)
  case Nil
  then show ?case by simp
next
  case (Cons key keys)
  then obtain k where k: "get_keys_item rm key = Inr k"
    and rest: "get_keys_loop rm keys (acc @ [k]) = Inr result"
    by (auto split: sum.splits)
  from Cons.IH [OF rest] obtain ks where "result = (acc @ [k]) @ ks"
    and "list_all2 (\<lambda>key k. get_keys_item rm key = Inr k) keys ks" by blast
  with k show ?case by (intro exI [of _ "k # ks"]) simp
qed

lemma py_get_not_server_error: "py_get v k \<noteq> Inl (OutlineServerErrorException msg)"
  by (cases v) simp_all

lemma py_get_value_not_server_error: "py_get_value v k \<noteq> Inl (OutlineServerErrorException msg)"
  by (cases "(v, k)" rule: py_get_value.cases) simp_all

lemma py_iter_not_server_error: "py_iter v \<noteq> Inl (OutlineServerErrorException msg)"
  by (cases v) simp_all

lemma py_in_not_server_error: "py_in k v \<noteq> Inl (OutlineServerErrorException msg)"
  by (cases v) simp_all

lemma response_json_not_server_error: "response_json r \<noteq> Inl (OutlineServerErrorException msg)"
  by (simp add: response_json_def split: option.splits)

lemma and_then_not_server_error:
  assumes "r \<noteq> Inl (OutlineServerErrorException msg)"
    and "\<And>v. f v \<noteq> Inl (OutlineServerErrorException msg)"
  shows "and_then r f \<noteq> Inl (OutlineServerErrorException msg)"
  using assms by (cases r) (simp_all add: and_then_def)

lemma get_keys_item_not_server_error:
  "get_keys_item rm key \<noteq> Inl (OutlineServerErrorException msg)"
  unfolding get_keys_item_def
  by (intro and_then_not_server_error py_get_not_server_error py_get_value_not_server_error
        response_json_not_server_error) simp

lemma get_keys_loop_not_server_error:
  "get_keys_loop rm keys acc \<noteq> Inl (OutlineServerErrorException msg)"
  by (induction keys arbitrary: acc) (auto split: sum.splits simp: get_keys_item_not_server_error)


lemma get_keys_fst:
  assumes s1: "send (requests_get (api_url self @ ''/access-keys/'')) w = (response, w1)"
    and s2: "send (requests_get (api_url self @ ''/metrics/transfer'')) w1 = (response_metrics, w2)"
  shows "fst (get_keys send self w) =
     (if status_code response \<noteq> 200
      then Inl (OutlineServerErrorException ''Unable to retrieve keys'')
      else
        (case and_then (response_json response) (py_in ''accessKeys'') of
           Inl e \<Rightarrow> Inl e
         | Inr False \<Rightarrow> Inl (OutlineServerErrorException ''Unable to retrieve keys'')
         | Inr True \<Rightarrow>
              if status_code response_metrics \<ge> 400
              then Inl (OutlineServerErrorException ''Unable to get metrics'')
              else
                (case and_then (response_json response_metrics)
                        (py_in ''bytesTransferredByUserId'') of
                   Inl e \<Rightarrow> Inl e
                 | Inr False \<Rightarrow> Inl (OutlineServerErrorException ''Unable to get metrics'')
                 | Inr True \<Rightarrow>
                     and_then (response_json response) (\<lambda>body.
                      and_then (py_get body ''accessKeys'') (\<lambda>access_keys.
                      and_then (py_iter access_keys) (\<lambda>keys.
                        get_keys_loop response_metrics keys []))))))"
  using s1 s2 by (simp add: get_keys_def split: sum.splits bool.splits)

lemma get_keys_body_not_server_error:
  "and_then (response_json response) (\<lambda>body.
     and_then (py_get body ''accessKeys'') (\<lambda>access_keys.
     and_then (py_iter access_keys) (\<lambda>keys.
       get_keys_loop response_metrics keys []))) \<noteq> Inl (OutlineServerErrorException msg)"
  by (intro and_then_not_server_error py_get_not_server_error py_iter_not_server_error
        response_json_not_server_error get_keys_loop_not_server_error)

lemma check_not_server_error:
  "and_then (response_json r) (py_in k) \<noteq> Inl (OutlineServerErrorException msg)"
  by (intro and_then_not_server_error py_in_not_server_error response_json_not_server_error)

lemma get_keys_Inr:
  assumes s1: "send (requests_get (api_url self @ ''/access-keys/'')) w = (response, w1)"
    and s2: "send (requests_get (api_url self @ ''/metrics/transfer'')) w1 = (response_metrics, w2)"
    and ok: "fst (get_keys send self w) = Inr result"
  shows "status_code response = 200 \<and> status_code response_metrics < 400
       \<and> (\<exists>body keys. json_body response = Some body
             \<and> and_then (py_get body ''accessKeys'') py_iter = Inr keys
             \<and> list_all2 (\<lambda>key k. get_keys_item response_metrics key = Inr k) keys result)"
proof -
  from ok have st: "status_code response = 200" "status_code response_metrics < 400"
    and run: "and_then (response_json response) (\<lambda>body.
                and_then (py_get body ''accessKeys'') (\<lambda>access_keys.
                and_then (py_iter access_keys) (\<lambda>keys.
                  get_keys_loop response_metrics keys []))) = Inr result"
    unfolding get_keys_fst [OF s1 s2]
    by (auto split: if_splits sum.splits bool.splits)
  from run obtain body access_keys keys where b: "json_body response = Some body"
    and a: "py_get body ''accessKeys'' = Inr access_keys"
    and i: "py_iter access_keys = Inr keys"
    and l: "get_keys_loop response_metrics keys [] = Inr result"
    by (auto simp add: and_then_def response_json_def split: option.splits sum.splits)
  from get_keys_loop_Inr [OF l]
  have "list_all2 (\<lambda>key k. get_keys_item response_metrics key = Inr k) keys result" by simp
  with st b a i show ?thesis by (simp add: and_then_def)
qed

lemma map_of_Some_key: "map_of kvs k = Some v \<Longrightarrow> k \<in> set (map fst kvs)"
  by (induction kvs) (auto split: if_splits)

lemma get_keys_item_JObj:
  assumes m: "json_body response_metrics = Some (JObj metrics)"
    and b: "map_of metrics ''bytesTransferredByUserId'' = Some (JObj by_user)"
    and h: "\<forall>xs. dict_get kvs ''id'' \<noteq> JArr xs" "\<forall>xs. dict_get kvs ''id'' \<noteq> JObj xs"
  shows "get_keys_item response_metrics (JObj kvs) =
     Inr \<lparr>key_id = dict_get kvs ''id'', name = dict_get kvs ''name'',
          password = dict_get kvs ''password'', port = dict_get kvs ''port'',
          method = dict_get kvs ''method'', access_url = dict_get kvs ''accessUrl'',
          used_bytes =
            (case dict_get kvs ''id'' of
               JStr i \<Rightarrow> (case map_of by_user i of None \<Rightarrow> JNull | Some n \<Rightarrow> n)
             | _ \<Rightarrow> JNull)\<rparr>"
  using m b h
  by (cases "dict_get kvs ''id''")
     (simp_all add: get_keys_item_def and_then_def response_json_def dict_get_def)

lemma get_keys_loop_JObj:
  assumes m: "json_body response_metrics = Some (JObj metrics)"
    and b: "map_of metrics ''bytesTransferredByUserId'' = Some (JObj by_user)"
    and h: "\<forall>kvs \<in> set entries. (\<forall>xs. dict_get kvs ''id'' \<noteq> JArr xs)
                                 \<and> (\<forall>xs. dict_get kvs ''id'' \<noteq> JObj xs)"
  shows "get_keys_loop response_metrics (map JObj entries) acc =
     Inr (acc @ map (\<lambda>kvs.
       \<lparr>key_id = dict_get kvs ''id'', name = dict_get kvs ''name'',
        password = dict_get kvs ''password'', port = dict_get kvs ''port'',
        method = dict_get kvs ''method'', access_url = dict_get kvs ''accessUrl'',
        used_bytes =
          (case dict_get kvs ''id'' of
             JStr i \<Rightarrow> (case map_of by_user i of None \<Rightarrow> JNull | Some n \<Rightarrow> n)
           | _ \<Rightarrow> JNull)\<rparr>) entries)"
  using h
proof (induction entries arbitrary: acc)
  case Nil
  then show ?case by simp
next
  case (Cons kvs entries)
  from Cons.prems have "\<forall>xs. dict_get kvs ''id'' \<noteq> JArr xs" "\<forall>xs. dict_get kvs ''id'' \<noteq> JObj xs"
    by simp_all
  note item = get_keys_item_JObj [OF m b this]
  from Cons.prems have "\<forall>kvs \<in> set entries. (\<forall>xs. dict_get kvs ''id'' \<noteq> JArr xs)
                                 \<and> (\<forall>xs. dict_get kvs ''id'' \<noteq> JObj xs)" by simp
  note IH = Cons.IH [OF this]
  show ?case by (simp add: item IH)
qed

lemma get_keys_listing:
  assumes s1: "send (requests_get (api_url self @ ''/access-keys/'')) w = (response, w1)"
    and s2: "send (requests_get (api_url self @ ''/metrics/transfer'')) w1 = (response_metrics, w2)"
    and st: "status_code response = 200" "status_code response_metrics < 400"
    and kb: "json_body response = Some (JObj body)"
    and ka: "map_of body ''accessKeys'' = Some (JArr (map JObj entries))"
    and m: "json_body response_metrics = Some (JObj metrics)"
    and b: "map_of metrics ''bytesTransferredByUserId'' = Some (JObj by_user)"
    and h: "\<forall>kvs \<in> set entries. (\<forall>xs. dict_get kvs ''id'' \<noteq> JArr xs)
                                 \<and> (\<forall>xs. dict_get kvs ''id'' \<noteq> JObj xs)"
  shows "fst (get_keys send self w) =
     Inr (map (\<lambda>kvs.
       \<lparr>key_id = dict_get kvs ''id'', name = dict_get kvs ''name'',
        password = dict_get kvs ''password'', port = dict_get kvs ''port'',
        method = dict_get kvs ''method'', access_url = dict_get kvs ''accessUrl'',
        used_bytes =
          (case dict_get kvs ''id'' of
             JStr i \<Rightarrow> (case map_of by_user i of None \<Rightarrow> JNull | Some n \<Rightarrow> n)
           | _ \<Rightarrow> JNull)\<rparr>) entries)"
proof -
  from ka have "''accessKeys'' \<in> set (map fst body)"
    by (rule map_of_Some_key)
  then have c1: "and_then (response_json response) (py_in ''accessKeys'') = Inr True"
    using kb by (simp add: and_then_def response_json_def)
  from b have "''bytesTransferredByUserId'' \<in> set (map fst metrics)"
    by (rule map_of_Some_key)
  then have c2: "and_then (response_json response_metrics) (py_in ''bytesTransferredByUserId'')
      = Inr True"
    using m by (simp add: and_then_def response_json_def)
  have run: "and_then (response_json response) (\<lambda>body.
                and_then (py_get body ''accessKeys'') (\<lambda>access_keys.
                and_then (py_iter access_keys) (\<lambda>keys.
                  get_keys_loop response_metrics keys [])))
      = get_keys_loop response_metrics (map JObj entries) []"
    using kb ka by (simp add: and_then_def response_json_def dict_get_def)
  show ?thesis
    unfolding get_keys_fst [OF s1 s2] run get_keys_loop_JObj [OF m b h]
    using st c1 c2 by simp
qed

section \<open>Listing the keys: the result\<close>

lemma get_keys_example:
  assumes s1: "send (requests_get (api_url self @ ''/access-keys/'')) w = (response, w1)"
    and s2: "send (requests_get (api_url self @ ''/metrics/transfer'')) w1 = (response_metrics, w2)"
    and "status_code response = 200" "json_body response = Some example_keys_body"
    and "status_code response_metrics = 200"
    and "json_body response_metrics = Some example_metrics_body"
  shows "fst (get_keys send self w) = Inr [example_key]"
  unfolding get_keys_fst [OF s1 s2] using assms(3-)
  by (simp add: and_then_def response_json_def example_keys_body_def example_metrics_body_def
        example_key_def get_keys_item_def dict_get_def)

text \<open>
  C1. When \<^verbatim>\<open>get_keys\<close> returns, its result has one \<open>OutlineKey\<close> for each entry of
  \<^verbatim>\<open>accessKeys\<close>, in order; each entry is an object, the record's identifier is the
  entry's \<^verbatim>\<open>id\<close>, and its \<open>used_bytes\<close> is what the \<^verbatim>\<open>bytesTransferredByUserId\<close> object of
  the metrics body holds under that identifier, \<open>JNull\<close> (Python's \<^verbatim>\<open>None\<close>) when it holds
  nothing there. For the bodies of the specification's example the result is the one
  key with identifier \<^verbatim>\<open>"1"\<close> and 1000 bytes. And \<^verbatim>\<open>get_keys\<close> does return: when the keys
  call has status 200 and a body whose \<^verbatim>\<open>accessKeys\<close> is a list of objects, and the
  metrics call has a status below 400 and a body whose \<^verbatim>\<open>bytesTransferredByUserId\<close> is an
  object, the result is the list of the records of all the entries, in order, each with
  the count found under its identifier and with \<open>JNull\<close> when there is none (an identifier
  that is a list or an object cannot be looked up, and is excluded).
\<close>

theorem get_keys_joins_metrics:
  assumes s1: "send (requests_get (api_url self @ ''/access-keys/'')) w = (response, w1)"
    and s2: "send (requests_get (api_url self @ ''/metrics/transfer'')) w1 = (response_metrics, w2)"
  shows "(fst (get_keys send self w) = Inr result \<longrightarrow>
            (\<exists>body metrics keys.
               json_body response = Some body \<and> json_body response_metrics = Some metrics
             \<and> and_then (py_get body ''accessKeys'') py_iter = Inr keys
             \<and> length result = length keys
             \<and> list_all2 (\<lambda>key k. \<exists>kvs by_user.
                    key = JObj kvs
                  \<and> py_get metrics ''bytesTransferredByUserId'' = Inr (JObj by_user)
                  \<and> key_id k = dict_get kvs ''id''
                  \<and> used_bytes k =
                      (case key_id k of JStr i \<Rightarrow> dict_get by_user i | _ \<Rightarrow> JNull))
                 keys result))
       \<and> (status_code response = 200 \<and> json_body response = Some example_keys_body
            \<and> status_code response_metrics = 200
            \<and> json_body response_metrics = Some example_metrics_body \<longrightarrow>
          fst (get_keys send self w) = Inr [example_key])
       \<and> (status_code response = 200 \<and> status_code response_metrics < 400
            \<and> json_body response = Some (JObj body)
            \<and> map_of body ''accessKeys'' = Some (JArr (map JObj entries))
            \<and> json_body response_metrics = Some (JObj metrics)
            \<and> map_of metrics ''bytesTransferredByUserId'' = Some (JObj by_user)
            \<and> (\<forall>kvs \<in> set entries. (\<forall>xs. dict_get kvs ''id'' \<noteq> JArr xs)
                                    \<and> (\<forall>xs. dict_get kvs ''id'' \<noteq> JObj xs)) \<longrightarrow>
          fst (get_keys send self w) =
            Inr (map (\<lambda>kvs.
              \<lparr>key_id = dict_get kvs ''id'', name = dict_get kvs ''name'',
               password = dict_get kvs ''password'', port = dict_get kvs ''port'',
               method = dict_get kvs ''method'', access_url = dict_get kvs ''accessUrl'',
               used_bytes =
                 (case dict_get kvs ''id'' of
                    JStr i \<Rightarrow> (case map_of by_user i of None \<Rightarrow> JNull | Some n \<Rightarrow> n)
                  | _ \<Rightarrow> JNull)\<rparr>) entries))"
proof (intro conjI impI)
  assume ok: "fst (get_keys send self w) = Inr result"
  from get_keys_Inr [OF s1 s2 ok] obtain body keys where b: "json_body response = Some body"
    and k: "and_then (py_get body ''accessKeys'') py_iter = Inr keys"
    and l: "list_all2 (\<lambda>key k. get_keys_item response_metrics key = Inr k) keys result"
    by blast
  from ok obtain metrics where m: "json_body response_metrics = Some metrics"
    unfolding get_keys_fst [OF s1 s2]
    by (cases "json_body response_metrics")
       (auto simp add: and_then_def response_json_def split: if_splits sum.splits bool.splits)
  have "list_all2 (\<lambda>key k. \<exists>kvs by_user.
            key = JObj kvs
          \<and> py_get metrics ''bytesTransferredByUserId'' = Inr (JObj by_user)
          \<and> key_id k = dict_get kvs ''id''
          \<and> used_bytes k = (case key_id k of JStr i \<Rightarrow> dict_get by_user i | _ \<Rightarrow> JNull))
         keys result"
  proof (rule list_all2_mono [OF l])
    fix key k
    assume "get_keys_item response_metrics key = Inr k"
    from get_keys_item_Inr [OF this] m obtain kvs by_user where "key = JObj kvs"
      and f: "py_get metrics ''bytesTransferredByUserId'' = Inr (JObj by_user)"
      and u: "py_get_value (JObj by_user) (dict_get kvs ''id'') = Inr (used_bytes k)"
      and i: "key_id k = dict_get kvs ''id''"
      by (metis OutlineKey.select_convs(1) option.inject)
    from u i have "used_bytes k = (case key_id k of JStr i \<Rightarrow> dict_get by_user i | _ \<Rightarrow> JNull)"
      by (cases "dict_get kvs ''id''") simp_all
    with \<open>key = JObj kvs\<close> f i
    show "\<exists>kvs by_user. key = JObj kvs
          \<and> py_get metrics ''bytesTransferredByUserId'' = Inr (JObj by_user)
          \<and> key_id k = dict_get kvs ''id''
          \<and> used_bytes k = (case key_id k of JStr i \<Rightarrow> dict_get by_user i | _ \<Rightarrow> JNull)"
      by blast
  qed
  with b m k list_all2_lengthD [OF l]
  show "\<exists>body metrics keys.
               json_body response = Some body \<and> json_body response_metrics = Some metrics
             \<and> and_then (py_get body ''accessKeys'') py_iter = Inr keys
             \<and> length result = length keys
             \<and> list_all2 (\<lambda>key k. \<exists>kvs by_user.
                    key = JObj kvs
                  \<and> py_get metrics ''bytesTransferredByUserId'' = Inr (JObj by_user)
                  \<and> key_id k = dict_get kvs ''id''
                  \<and> used_bytes k =
                      (case key_id k of JStr i \<Rightarrow> dict_get by_user i | _ \<Rightarrow> JNull))
                 keys result"
    by (metis (lifting))
next
  assume "status_code response = 200 \<and> json_body response = Some example_keys_body
            \<and> status_code response_metrics = 200
            \<and> json_body response_metrics = Some example_metrics_body"
  then show "fst (get_keys send self w) = Inr [example_key]"
    using get_keys_example [OF s1 s2] by blast
next
  assume "status_code response = 200 \<and> status_code response_metrics < 400
            \<and> json_body response = Some (JObj body)
            \<and> map_of body ''accessKeys'' = Some (JArr (map JObj entries))
            \<and> json_body response_metrics = Some (JObj metrics)
            \<and> map_of metrics ''bytesTransferredByUserId'' = Some (JObj by_user)
            \<and> (\<forall>kvs \<in> set entries. (\<forall>xs. dict_get kvs ''id'' \<noteq> JArr xs)
                                    \<and> (\<forall>xs. dict_get kvs ''id'' \<noteq> JObj xs))"
  then show "fst (get_keys send self w) =
            Inr (map (\<lambda>kvs.
              \<lparr>key_id = dict_get kvs ''id'', name = dict_get kvs ''name'',
               password = dict_get kvs ''password'', port = dict_get kvs ''port'',
               method = dict_get kvs ''method'', access_url = dict_get kvs ''accessUrl'',
               used_bytes =
                 (case dict_get kvs ''id'' of
                    JStr i \<Rightarrow> (case map_of by_user i of None \<Rightarrow> JNull | Some n \<Rightarrow> n)
                  | _ \<Rightarrow> JNull)\<rparr>) entries)"
    by (intro get_keys_listing [OF s1 s2]) blast+
qed

lemma example_server_keys:
  "example_server (requests_get (api_url example_client @ ''/access-keys/'')) () =
     (\<lparr>status_code = 200, json_body = Some example_keys_body\<rparr>, ())"
  by (simp add: example_server_def route_def requests_get_def example_client_def)

lemma example_server_metrics:
  "example_server (requests_get (api_url example_client @ ''/metrics/transfer'')) () =
     (\<lparr>status_code = 200, json_body = Some example_metrics_body\<rparr>, ())"
  by (simp add: example_server_def route_def requests_get_def example_client_def)

lemma listing_server_keys:
  "listing_server (requests_get (api_url example_client @ ''/access-keys/'')) () =
     (\<lparr>status_code = 200,
       json_body = Some (JObj [(''accessKeys'', JArr (map JObj listing_entries))])\<rparr>, ())"
  by (simp add: listing_server_def route_def requests_get_def example_client_def)

lemma listing_server_metrics:
  "listing_server (requests_get (api_url example_client @ ''/metrics/transfer'')) () =
     (\<lparr>status_code = 200, json_body = Some example_metrics_body\<rparr>, ())"
  by (simp add: listing_server_def route_def requests_get_def example_client_def)

text \<open>
  The example, run against a server that answers as the specification says, and the
  listing of three keys: all three are returned, in order, the first with its 1000 bytes
  and the other two, for which the metrics hold nothing, with \<^verbatim>\<open>None\<close>.
\<close>

theorem get_keys_joins_metrics_witness:
  "fst (get_keys example_server example_client ()) = Inr [example_key]
   \<and> key_id example_key = JStr ''1'' \<and> used_bytes example_key = JInt 1000
   \<and> fst (get_keys listing_server example_client ()) =
       Inr [\<lparr>key_id = JStr ''1'', name = JStr ''a'', password = JStr ''p'', port = JInt 8388,
             method = JStr ''aes-128-gcm'', access_url = JStr ''ss://...'',
             used_bytes = JInt 1000\<rparr>,
            \<lparr>key_id = JStr ''2'', name = JStr ''b'', password = JStr ''q'', port = JInt 8389,
             method = JStr ''aes-128-gcm'', access_url = JStr ''ss://,,,'',
             used_bytes = JNull\<rparr>,
            \<lparr>key_id = JInt 3, name = JStr ''c'', password = JNull, port = JNull,
             method = JNull, access_url = JNull, used_bytes = JNull\<rparr>]"
proof -
  have one: "fst (get_keys example_server example_client ()) = Inr [example_key]"
    using get_keys_joins_metrics [where send = example_server and self = example_client
        and w = "()" and result = "[example_key]",
        OF example_server_keys example_server_metrics]
    by simp
  have hashable: "\<forall>kvs \<in> set listing_entries. (\<forall>xs. dict_get kvs ''id'' \<noteq> JArr xs)
                                    \<and> (\<forall>xs. dict_get kvs ''id'' \<noteq> JObj xs)"
    by (simp add: listing_entries_def dict_get_def)
  have "fst (get_keys listing_server example_client ()) =
            Inr (map (\<lambda>kvs.
              \<lparr>key_id = dict_get kvs ''id'', name = dict_get kvs ''name'',
               password = dict_get kvs ''password'', port = dict_get kvs ''port'',
               method = dict_get kvs ''method'', access_url = dict_get kvs ''accessUrl'',
               used_bytes =
                 (case dict_get kvs ''id'' of
                    JStr i \<Rightarrow> (case map_of [(''1'', JInt 1000)] i of None \<Rightarrow> JNull | Some n \<Rightarrow> n)
                  | _ \<Rightarrow> JNull)\<rparr>) listing_entries)"
    using get_keys_joins_metrics [where send = listing_server and self = example_client
        and w = "()" and body = "[(''accessKeys'', JArr (map JObj listing_entries))]"
        and entries = listing_entries
        and metrics = "[(''bytesTransferredByUserId'', JObj [(''1'', JInt 1000)])]"
        and by_user = "[(''1'', JInt 1000)]",
        OF listing_server_keys listing_server_metrics] hashable
    by (simp add: example_metrics_body_def)
  then have "fst (get_keys listing_server example_client ()) =
       Inr [\<lparr>key_id = JStr ''1'', name = JStr ''a'', password = JStr ''p'', port = JInt 8388,
             method = JStr ''aes-128-gcm'', access_url = JStr ''ss://...'',
             used_bytes = JInt 1000\<rparr>,
            \<lparr>key_id = JStr ''2'', name = JStr ''b'', password = JStr ''q'', port = JInt 8389,
             method = JStr ''aes-128-gcm'', access_url = JStr ''ss://,,,'',
             used_bytes = JNull\<rparr>,
            \<lparr>key_id = JInt 3, name = JStr ''c'', password = JNull, port = JNull,
             method = JNull, access_url = JNull, used_bytes = JNull\<rparr>]"
    by (simp add: listing_entries_def dict_get_def)
  with one show ?thesis by (simp add: example_key_def)
qed

section \<open>Listing the keys: the errors\<close>

lemma metrics_not_json_server_keys:
  "metrics_not_json_server (requests_get (api_url example_client @ ''/access-keys/'')) () =
     (no_keys_response, ())"
  by (simp add: metrics_not_json_server_def route_def requests_get_def example_client_def)

lemma metrics_not_json_server_metrics:
  "metrics_not_json_server (requests_get (api_url example_client @ ''/metrics/transfer'')) () =
     (not_json_response, ())"
  by (simp add: metrics_not_json_server_def route_def requests_get_def example_client_def)

lemma metrics_down_server_keys:
  "metrics_down_server (requests_get (api_url example_client @ ''/access-keys/'')) () =
     (no_keys_response, ())"
  by (simp add: metrics_down_server_def route_def requests_get_def example_client_def)

lemma metrics_down_server_metrics:
  "metrics_down_server (requests_get (api_url example_client @ ''/metrics/transfer'')) () =
     (\<lparr>status_code = 503, json_body = None\<rparr>, ())"
  by (simp add: metrics_down_server_def route_def requests_get_def example_client_def)

text \<open>
  A server that answers the keys call with 200 and a good body and the metrics call with
  200 and a body that is not JSON: the metrics body lacks the field, but what leaves
  \<^verbatim>\<open>get_keys\<close> is the decoding error of \<^verbatim>\<open>response.json()\<close>, not the server error.
\<close>

theorem get_keys_metrics_not_json_counterexample:
  "fst (get_keys metrics_not_json_server example_client ()) = Inl JSONDecodeError
   \<and> \<not> list_keys_errors_as_specified no_keys_response not_json_response
         (fst (get_keys metrics_not_json_server example_client ()))"
proof -
  have "fst (get_keys metrics_not_json_server example_client ()) = Inl JSONDecodeError"
    unfolding get_keys_fst [where send = metrics_not_json_server and self = example_client,
        OF metrics_not_json_server_keys metrics_not_json_server_metrics]
    by (simp add: no_keys_response_def not_json_response_def and_then_def response_json_def)
  then show ?thesis
    by (simp add: list_keys_errors_as_specified_def has_field_def no_keys_response_def
          not_json_response_def)
qed

text \<open>
  C2, as the code has it. \<^verbatim>\<open>get_keys\<close> raises the error "Unable to retrieve keys" exactly
  when the status of the keys call is not 200, or it is 200 and the body is JSON in which
  \<^verbatim>\<open>"accessKeys" in body\<close> is false. It raises "Unable to get metrics" exactly when the
  keys call passed that check and the status of the metrics call is 400 or more, or it is
  less and the body is JSON in which \<^verbatim>\<open>"bytesTransferredByUserId" in body\<close> is false. A body
  that is not JSON, where the code reads it, raises the decoding error instead.
\<close>

theorem get_keys_server_errors:
  assumes s1: "send (requests_get (api_url self @ ''/access-keys/'')) w = (response, w1)"
    and s2: "send (requests_get (api_url self @ ''/metrics/transfer'')) w1 = (response_metrics, w2)"
  shows "(fst (get_keys send self w) = Inl (OutlineServerErrorException ''Unable to retrieve keys'')
            \<longleftrightarrow> status_code response \<noteq> 200
                \<or> and_then (response_json response) (py_in ''accessKeys'') = Inr False)
       \<and> (fst (get_keys send self w) = Inl (OutlineServerErrorException ''Unable to get metrics'')
            \<longleftrightarrow> status_code response = 200
                \<and> and_then (response_json response) (py_in ''accessKeys'') = Inr True
                \<and> (status_code response_metrics \<ge> 400
                     \<or> and_then (response_json response_metrics)
                          (py_in ''bytesTransferredByUserId'') = Inr False))
       \<and> (status_code response = 200 \<and> json_body response = None
            \<longrightarrow> fst (get_keys send self w) = Inl JSONDecodeError)
       \<and> (status_code response = 200
            \<and> and_then (response_json response) (py_in ''accessKeys'') = Inr True
            \<and> status_code response_metrics < 400 \<and> json_body response_metrics = None
            \<longrightarrow> fst (get_keys send self w) = Inl JSONDecodeError)"
proof -
  note ne = get_keys_body_not_server_error [of response response_metrics]
    check_not_server_error [of response "''accessKeys''"]
    check_not_server_error [of response_metrics "''bytesTransferredByUserId''"]
  have "fst (get_keys send self w) = Inl JSONDecodeError"
    if "status_code response = 200" "json_body response = None"
    unfolding get_keys_fst [OF s1 s2] using that by (simp add: and_then_def response_json_def)
  moreover have "fst (get_keys send self w) = Inl JSONDecodeError"
    if "status_code response = 200"
      "and_then (response_json response) (py_in ''accessKeys'') = Inr True"
      "status_code response_metrics < 400" "json_body response_metrics = None"
    unfolding get_keys_fst [OF s1 s2] using that by (simp add: and_then_def response_json_def)
  moreover have "(fst (get_keys send self w) = Inl (OutlineServerErrorException ''Unable to retrieve keys'')
            \<longleftrightarrow> status_code response \<noteq> 200
                \<or> and_then (response_json response) (py_in ''accessKeys'') = Inr False)"
    unfolding get_keys_fst [OF s1 s2]
    using ne by (auto split: sum.splits bool.splits)
  moreover have "(fst (get_keys send self w) = Inl (OutlineServerErrorException ''Unable to get metrics'')
            \<longleftrightarrow> status_code response = 200
                \<and> and_then (response_json response) (py_in ''accessKeys'') = Inr True
                \<and> (status_code response_metrics \<ge> 400
                     \<or> and_then (response_json response_metrics)
                          (py_in ''bytesTransferredByUserId'') = Inr False))"
    unfolding get_keys_fst [OF s1 s2]
    using ne by (auto split: sum.splits bool.splits)
  ultimately show ?thesis by blast
qed

text \<open>The metrics endpoint answering 503 after a good keys call.\<close>

theorem get_keys_server_errors_witness:
  "fst (get_keys metrics_down_server example_client ()) =
     Inl (OutlineServerErrorException ''Unable to get metrics'')
   \<and> fst (get_keys metrics_down_server example_client ()) \<noteq>
     Inl (OutlineServerErrorException ''Unable to retrieve keys'')"
  using get_keys_server_errors [where send = metrics_down_server and self = example_client,
      OF metrics_down_server_keys metrics_down_server_metrics]
  by (simp add: no_keys_response_def and_then_def response_json_def)

section \<open>Reading the transfer counts\<close>

lemma get_transferred_data_fst:
  assumes s: "send (requests_get (api_url self @ ''/metrics/transfer'')) w = (response, w1)"
  shows "fst (get_transferred_data send self w) =
     (if status_code response \<ge> 400
      then Inl (OutlineServerErrorException ''Unable to get metrics'')
      else
        (case and_then (response_json response) (py_in ''bytesTransferredByUserId'') of
           Inl e \<Rightarrow> Inl e
         | Inr False \<Rightarrow> Inl (OutlineServerErrorException ''Unable to get metrics'')
         | Inr True \<Rightarrow> response_json response))"
  using s by (simp add: get_transferred_data_def split: sum.splits bool.splits)

lemma metrics_created_server_metrics:
  "metrics_created_server (requests_get (api_url example_client @ ''/metrics/transfer'')) () =
     (metrics_created_response, ())"
  by (simp add: metrics_created_server_def route_def requests_get_def example_client_def)

text \<open>
  A metrics endpoint that answers 201 with a body that has the field: the status is not
  200, and \<^verbatim>\<open>get_transferred_data\<close> returns the body.
\<close>

theorem get_transferred_data_201_counterexample:
  "fst (get_transferred_data metrics_created_server example_client ()) = Inr example_metrics_body
   \<and> \<not> transferred_data_as_specified metrics_created_response
         (fst (get_transferred_data metrics_created_server example_client ()))"
proof -
  have "fst (get_transferred_data metrics_created_server example_client ()) =
          Inr example_metrics_body"
    unfolding get_transferred_data_fst [where send = metrics_created_server
        and self = example_client, OF metrics_created_server_metrics]
    by (simp add: metrics_created_response_def example_metrics_body_def and_then_def
          response_json_def)
  then show ?thesis
    by (simp add: transferred_data_as_specified_def metrics_created_response_def)
qed

text \<open>
  C8, as the code has it. \<^verbatim>\<open>get_transferred_data\<close> returns the parsed body, the object
  whose \<^verbatim>\<open>bytesTransferredByUserId\<close> field holds the counts, when the status is below 400
  and the body contains the field. It raises "Unable to get metrics" exactly when the
  status is 400 or more, or it is less and the body is JSON in which
  \<^verbatim>\<open>"bytesTransferredByUserId" in body\<close> is false. A body that is not JSON under a status
  below 400 raises the decoding error.
\<close>

theorem get_transferred_data_outcome:
  assumes s: "send (requests_get (api_url self @ ''/metrics/transfer'')) w = (response, w1)"
  shows "(status_code response < 400 \<and> json_body response = Some body
            \<and> py_in ''bytesTransferredByUserId'' body = Inr True
            \<longrightarrow> fst (get_transferred_data send self w) = Inr body)
       \<and> (status_code response < 400 \<and> has_field ''bytesTransferredByUserId'' response
            \<longrightarrow> fst (get_transferred_data send self w) = response_json response
                \<and> \<not> isl (fst (get_transferred_data send self w)))
       \<and> (fst (get_transferred_data send self w) =
              Inl (OutlineServerErrorException ''Unable to get metrics'')
            \<longleftrightarrow> status_code response \<ge> 400
                \<or> and_then (response_json response) (py_in ''bytesTransferredByUserId'') = Inr False)
       \<and> (status_code response < 400 \<and> json_body response = None
            \<longrightarrow> fst (get_transferred_data send self w) = Inl JSONDecodeError)"
proof -
  note ne = check_not_server_error [of response "''bytesTransferredByUserId''"]
    response_json_not_server_error [of response]
  have a: "fst (get_transferred_data send self w) = Inr body"
    if "status_code response < 400" "json_body response = Some body"
      "py_in ''bytesTransferredByUserId'' body = Inr True"
    unfolding get_transferred_data_fst [where send = send and self = self, OF s] using that
    by (simp add: and_then_def response_json_def)
  have b: "fst (get_transferred_data send self w) = response_json response
        \<and> \<not> isl (fst (get_transferred_data send self w))"
    if "status_code response < 400" "has_field ''bytesTransferredByUserId'' response"
    unfolding get_transferred_data_fst [where send = send and self = self, OF s] using that
    by (auto simp add: and_then_def response_json_def has_field_def
          split: option.splits json.splits)
  have c: "(fst (get_transferred_data send self w) =
              Inl (OutlineServerErrorException ''Unable to get metrics'')
            \<longleftrightarrow> status_code response \<ge> 400
                \<or> and_then (response_json response) (py_in ''bytesTransferredByUserId'') = Inr False)"
    unfolding get_transferred_data_fst [where send = send and self = self, OF s]
    using ne by (auto split: sum.splits bool.splits)
  have d: "fst (get_transferred_data send self w) = Inl JSONDecodeError"
    if "status_code response < 400" "json_body response = None"
    unfolding get_transferred_data_fst [where send = send and self = self, OF s] using that
    by (simp add: and_then_def response_json_def)
  from a b c d show ?thesis by blast
qed

text \<open>The metrics endpoint of the specification's example.\<close>

theorem get_transferred_data_outcome_witness:
  "fst (get_transferred_data example_server example_client ()) = Inr example_metrics_body"
  using get_transferred_data_outcome [where send = example_server and self = example_client
      and body = example_metrics_body, OF example_server_metrics]
  by (simp add: example_metrics_body_def)

section \<open>Reading the metrics setting\<close>

lemma get_metrics_status_fst:
  assumes s: "send (requests_get (api_url self @ ''/metrics/enabled'')) w = (response, w1)"
  shows "fst (get_metrics_status send self w) =
           and_then (response_json response) (\<lambda>body. py_get body ''metricsEnabled'')"
  using s by (simp add: get_metrics_status_def)

lemma metrics_enabled_server_enabled:
  "metrics_enabled_server r (requests_get (api_url example_client @ ''/metrics/enabled'')) () = (r, ())"
  by (simp add: metrics_enabled_server_def route_def requests_get_def example_client_def)

text \<open>
  A body that is the empty object lacks \<^verbatim>\<open>metricsEnabled\<close>, and \<^verbatim>\<open>get_metrics_status\<close>
  returns \<^verbatim>\<open>None\<close>: nothing is raised.
\<close>

theorem get_metrics_status_missing_field_counterexample:
  "\<not> has_field ''metricsEnabled'' no_fields_response
   \<and> fst (get_metrics_status (metrics_enabled_server no_fields_response) example_client ()) = Inr JNull"
  unfolding get_metrics_status_fst [where send = "metrics_enabled_server no_fields_response"
      and self = example_client, OF metrics_enabled_server_enabled]
  by (simp add: no_fields_response_def has_field_def and_then_def response_json_def dict_get_def)

lemma dict_get_missing: "k \<notin> set (map fst kvs) \<Longrightarrow> dict_get kvs k = JNull"
  by (simp add: dict_get_def map_of_eq_None_iff [THEN iffD2])

text \<open>
  C9, as the code has it. \<^verbatim>\<open>get_metrics_status\<close> returns the value of \<^verbatim>\<open>metricsEnabled\<close>
  in the body, the boolean the server put there, whatever the status code; it never raises
  the server error. A body that is not JSON raises the decoding error and a JSON body
  that is not an object an attribute error, but an object without the field gives
  \<^verbatim>\<open>None\<close> and no error.
\<close>

theorem get_metrics_status_outcome:
  assumes s: "send (requests_get (api_url self @ ''/metrics/enabled'')) w = (response, w1)"
  shows "(json_body response = Some (JObj kvs)
            \<longrightarrow> fst (get_metrics_status send self w) = Inr (dict_get kvs ''metricsEnabled''))
       \<and> (json_body response = Some (JObj kvs) \<and> map_of kvs ''metricsEnabled'' = Some (JBool b)
            \<longrightarrow> fst (get_metrics_status send self w) = Inr (JBool b))
       \<and> (json_body response = Some (JObj kvs) \<and> ''metricsEnabled'' \<notin> set (map fst kvs)
            \<longrightarrow> fst (get_metrics_status send self w) = Inr JNull)
       \<and> (json_body response = None
            \<longrightarrow> fst (get_metrics_status send self w) = Inl JSONDecodeError)
       \<and> (json_body response = Some body \<and> py_get body ''metricsEnabled'' = Inl AttributeError
            \<longrightarrow> fst (get_metrics_status send self w) = Inl AttributeError)
       \<and> fst (get_metrics_status send self w) \<noteq> Inl (OutlineServerErrorException msg)"
proof -
  have "fst (get_metrics_status send self w) \<noteq> Inl (OutlineServerErrorException msg)"
    unfolding get_metrics_status_fst [where send = send and self = self, OF s]
    by (intro and_then_not_server_error response_json_not_server_error py_get_not_server_error)
  then show ?thesis
    unfolding get_metrics_status_fst [where send = send and self = self, OF s]
    by (auto simp add: and_then_def response_json_def dict_get_def dict_get_missing
          map_of_eq_None_iff [THEN iffD2])
qed

text \<open>A server with metrics enabled.\<close>

theorem get_metrics_status_outcome_witness:
  "fst (get_metrics_status
          (metrics_enabled_server
             \<lparr>status_code = 200, json_body = Some (JObj [(''metricsEnabled'', JBool True)])\<rparr>)
          example_client ()) = Inr (JBool True)"
  using get_metrics_status_outcome [where send = "metrics_enabled_server
             \<lparr>status_code = 200, json_body = Some (JObj [(''metricsEnabled'', JBool True)])\<rparr>"
      and self = example_client and kvs = "[(''metricsEnabled'', JBool True)]" and b = True,
      OF metrics_enabled_server_enabled]
  by (simp add: dict_get_def)

section \<open>Operations that answer with a boolean\<close>

text \<open>
  C6. Each of the nine operations returns, without raising, whether the status of its one
  request is 204.
\<close>

theorem boolean_operations_status_204:
  "fst (delete_key fmt send self kid w) =
     Inr (status_code (fst (send (requests_delete (api_url self @ ''/access-keys/'' @ fmt kid)) w)) = 204)
   \<and> fst (rename_key fmt send self kid nm w) =
     Inr (status_code (fst (send (requests_put (api_url self @ ''/access-keys/'' @ fmt kid @ ''/name'')
            (FilesPayload [(''name'', None, nm)])) w)) = 204)
   \<and> fst (add_data_limit fmt send self kid limit_bytes w) =
     Inr (status_code (fst (send (requests_put (api_url self @ ''/access-keys/'' @ fmt kid @ ''/data-limit'')
            (JsonPayload (JObj [(''limit'', JObj [(''bytes'', JInt limit_bytes)])]))) w)) = 204)
   \<and> fst (delete_data_limit fmt send self kid w) =
     Inr (status_code (fst (send (requests_delete
            (api_url self @ ''/access-keys/'' @ fmt kid @ ''/data-limit'')) w)) = 204)
   \<and> fst (set_server_name send self nm w) =
     Inr (status_code (fst (send (requests_put (api_url self @ ''/name'')
            (JsonPayload (JObj [(''name'', JStr nm)]))) w)) = 204)
   \<and> fst (set_hostname send self hostname w) =
     Inr (status_code (fst (send (requests_put (api_url self @ ''/server/hostname-for-access-keys'')
            (JsonPayload (JObj [(''hostname'', JStr hostname)]))) w)) = 204)
   \<and> fst (set_metrics_status send self status w) =
     Inr (status_code (fst (send (requests_put (api_url self @ ''/metrics/enabled'')
            (JsonPayload (JObj [(''metricsEnabled'', JBool status)]))) w)) = 204)
   \<and> fst (set_data_limit_for_all_keys send self limit_bytes w) =
     Inr (status_code (fst (send (requests_put (api_url self @ ''/server/access-key-data-limit'')
            (JsonPayload (JObj [(''limit'', JObj [(''bytes'', JInt limit_bytes)])]))) w)) = 204)
   \<and> fst (delete_data_limit_for_all_keys send self w) =
     Inr (status_code (fst (send (requests_delete
            (api_url self @ ''/server/access-key-data-limit'')) w)) = 204)"
  by (simp add: delete_key_def rename_key_def add_data_limit_def delete_data_limit_def
        set_server_name_def set_hostname_def set_metrics_status_def
        set_data_limit_for_all_keys_def delete_data_limit_for_all_keys_def
        split: prod.splits)

lemma delete_server_answer:
  "delete_server status (requests_delete (api_url example_client @ ''/access-keys/'' @ fmt_example (JStr ''1''))) ()
     = (\<lparr>status_code = status, json_body = None\<rparr>, ())"
  by (simp add: delete_server_def route_def requests_delete_def example_client_def fmt_example_def)

text \<open>Deleting key \<^verbatim>\<open>"1"\<close>: true on 204, false on 404, in both cases a return.\<close>

theorem boolean_operations_status_204_witness:
  "fst (delete_key fmt_example (delete_server 204) example_client (JStr ''1'') ()) = Inr True
   \<and> fst (delete_key fmt_example (delete_server 404) example_client (JStr ''1'') ()) = Inr False"
proof -
  have "fst (delete_key fmt_example (delete_server 204) example_client (JStr ''1'') ()) = Inr True"
    using boolean_operations_status_204 [where fmt = fmt_example and send = "delete_server 204"
        and self = example_client and kid = "JStr ''1''" and w = "()", THEN conjunct1]
    unfolding delete_server_answer by simp
  moreover
  have "fst (delete_key fmt_example (delete_server 404) example_client (JStr ''1'') ()) = Inr False"
    using boolean_operations_status_204 [where fmt = fmt_example and send = "delete_server 404"
        and self = example_client and kid = "JStr ''1''" and w = "()", THEN conjunct1]
    unfolding delete_server_answer by simp
  ultimately show ?thesis by simp
qed

section \<open>Setting the port for new keys\<close>

text \<open>
  C5. \<^verbatim>\<open>set_port_new_for_access_keys\<close> raises a server error whose message names the range
  of ports, 1 through 65535, on status 400, one whose message says that the port is
  already in use on status 409, and otherwise returns whether the status is 204: true
  exactly on 204, false on every other status but 400 and 409.
\<close>

theorem set_port_new_for_access_keys_outcome:
  assumes s: "send (requests_put (api_url self @ ''/server/port-for-new-access-keys'')
                (JsonPayload (JObj [(''port'', JInt prt)]))) w = (response, w1)"
  shows "(status_code response = 400 \<longrightarrow>
            (\<exists>msg. fst (set_port_new_for_access_keys send self prt w)
                     = Inl (OutlineServerErrorException msg)
                 \<and> sublist ''an integer from 1 through 65535'' msg))
       \<and> (status_code response = 409 \<longrightarrow>
            (\<exists>msg. fst (set_port_new_for_access_keys send self prt w)
                     = Inl (OutlineServerErrorException msg)
                 \<and> sublist ''port was already in use'' msg))
       \<and> (fst (set_port_new_for_access_keys send self prt w) = Inr True
            \<longleftrightarrow> status_code response = 204)
       \<and> (fst (set_port_new_for_access_keys send self prt w) = Inr False
            \<longleftrightarrow> status_code response \<notin> {204, 400, 409})"
proof -
  have r400: "sublist ''an integer from 1 through 65535''
      ''The requested port wasn't an integer from 1 through 65535, or the request had no port parameter.''"
    by (simp add: sublist_Cons_right)
  have r409: "sublist ''port was already in use''
      ''The requested port was already in use by another service.''"
    by (simp add: sublist_Cons_right)
  show ?thesis
    using s r400 r409 by (auto simp add: set_port_new_for_access_keys_def)
qed

lemma port_server_answer:
  "port_server status (requests_put (api_url example_client @ ''/server/port-for-new-access-keys'') p) ()
     = (\<lparr>status_code = status, json_body = None\<rparr>, ())"
  by (simp add: port_server_def route_def requests_put_def example_client_def)

text \<open>Port 8388 refused as already in use.\<close>

theorem set_port_new_for_access_keys_outcome_witness:
  "fst (set_port_new_for_access_keys (port_server 409) example_client 8388 ()) =
     Inl (OutlineServerErrorException ''The requested port was already in use by another service.'')
   \<and> fst (set_port_new_for_access_keys (port_server 409) example_client 8388 ()) \<noteq> Inr False
   \<and> fst (set_port_new_for_access_keys (port_server 409) example_client 8388 ()) \<noteq> Inr True"
proof -
  note t = set_port_new_for_access_keys_outcome [where send = "port_server 409"
      and self = example_client and prt = 8388 and w = "()", OF port_server_answer]
  have "fst (set_port_new_for_access_keys (port_server 409) example_client 8388 ()) =
     Inl (OutlineServerErrorException ''The requested port was already in use by another service.'')"
    by (simp add: set_port_new_for_access_keys_def port_server_answer)
  with t show ?thesis by simp
qed

section \<open>Constructing the client: the fingerprint\<close>

text \<open>
  C7. When a fingerprint is given (a string that is not empty) and the certificate the
  server presents has another one, compared without regard to case, the constructor
  raises \<open>CertificateMismatch\<close>: no client exists to make a management call with, and the
  state is the one the connection left. The constructor connects once when a fingerprint
  is given and not at all otherwise.
\<close>

theorem OutlineVPN_init_fingerprint:
  assumes t: "tls u w = (presented, w1)"
  shows "(truthy cert_sha256 \<and> map ascii_lower presented \<noteq> map ascii_lower (the cert_sha256)
            \<longrightarrow> OutlineVPN_init tls u cert_sha256 w = (Inl CertificateMismatch, w1))
       \<and> (truthy cert_sha256 \<and> map ascii_lower presented = map ascii_lower (the cert_sha256)
            \<longrightarrow> OutlineVPN_init tls u cert_sha256 w = (Inr \<lparr>api_url = u\<rparr>, w1))
       \<and> (\<not> truthy cert_sha256
            \<longrightarrow> OutlineVPN_init tls u cert_sha256 w = (Inr \<lparr>api_url = u\<rparr>, w))
       \<and> snd (snd (OutlineVPN_init (counting tls) u cert_sha256 (w, n))) =
            (if truthy cert_sha256 then Suc n else n)"
  using t by (simp add: OutlineVPN_init_def check_ssl_fingerprint_def counting_def
        split: prod.splits)

text \<open>A server presenting a certificate with another fingerprint than the expected one.\<close>

theorem OutlineVPN_init_fingerprint_witness:
  "OutlineVPN_init (presenting ''AB12CD'') ''https://vpn.example:443/SecretPath'' (Some ''ab12ce'') ()
     = (Inl CertificateMismatch, ())
   \<and> snd (snd (OutlineVPN_init (counting (presenting ''AB12CD''))
        ''https://vpn.example:443/SecretPath'' (Some ''ab12ce'') ((), 0))) = 1"
  using OutlineVPN_init_fingerprint [where tls = "presenting ''AB12CD''"
      and u = "''https://vpn.example:443/SecretPath''" and w = "()" and presented = "''AB12CD''"
      and ?w1.0 = "()" and ?cert_sha256.0 = "Some ''ab12ce''" and n = 0]
  by (simp add: presenting_def truthy_def ascii_lower_def)

section \<open>Creating a key: the result\<close>

lemma rename_key_outcome:
  "fst (rename_key fmt send self kid nm w) =
     Inr (status_code (fst (send (requests_put (api_url self @ ''/access-keys/'' @ fmt kid @ ''/name'')
            (FilesPayload [(''name'', None, nm)])) w)) = 204)"
  by (simp add: rename_key_def split: prod.splits)

lemma create_key_record_JObj:
  "create_key_record (JObj kvs) =
     Inr \<lparr>key_id = dict_get kvs ''id'', name = dict_get kvs ''name'',
          password = dict_get kvs ''password'', port = dict_get kvs ''port'',
          method = dict_get kvs ''method'', access_url = dict_get kvs ''accessUrl'',
          used_bytes = JInt 0\<rparr>"
  by (simp add: create_key_record_def and_then_def)

lemma create_key_record_Inr:
  assumes "create_key_record key = Inr k"
  shows "\<exists>kvs. key = JObj kvs"
  using assms by (cases key) (simp_all add: create_key_record_def and_then_def)

lemma create_key_fst:
  assumes post: "send (requests_post (api_url self @ ''/access-keys/'')) w = (response, w1)"
  shows "fst (create_key fmt send self key_name w) =
     (if status_code response = 201
      then
        (case and_then (response_json response) create_key_record of
           Inl e \<Rightarrow> Inl e
         | Inr outline_key \<Rightarrow>
             if truthy key_name
             then
               (case fst (rename_key fmt send self (key_id outline_key) (the key_name) w1) of
                  Inl e \<Rightarrow> Inl e
                | Inr renamed \<Rightarrow>
                    Inr (if renamed then outline_key\<lparr>name := JStr (the key_name)\<rparr>
                         else outline_key))
             else Inr outline_key)
      else Inl (OutlineServerErrorException ''Unable to create key''))"
  using post by (simp add: create_key_def split: sum.splits prod.splits)

lemma create_key_Inr:
  assumes post: "send (requests_post (api_url self @ ''/access-keys/'')) w = (response, w1)"
    and ok: "fst (create_key fmt send self key_name w) = Inr k"
  shows "status_code response = 201
       \<and> (\<exists>kvs. json_body response = Some (JObj kvs)
            \<and> k = \<lparr>key_id = dict_get kvs ''id'',
                    name = (if truthy key_name
                              \<and> fst (rename_key fmt send self (dict_get kvs ''id'') (the key_name) w1)
                                  = Inr True
                            then JStr (the key_name) else dict_get kvs ''name''),
                    password = dict_get kvs ''password'', port = dict_get kvs ''port'',
                    method = dict_get kvs ''method'', access_url = dict_get kvs ''accessUrl'',
                    used_bytes = JInt 0\<rparr>)"
proof -
  from ok have st: "status_code response = 201"
    unfolding create_key_fst [where send = send and self = self, OF post]
    by (simp split: if_splits)
  from ok st obtain key outline_key where b: "json_body response = Some key"
    and r: "create_key_record key = Inr outline_key"
    unfolding create_key_fst [where send = send and self = self, OF post]
    by (auto simp add: and_then_def response_json_def split: option.splits sum.splits)
  from create_key_record_Inr [OF r] obtain kvs where key: "key = JObj kvs" by blast
  from ok st b key have "k = \<lparr>key_id = dict_get kvs ''id'',
                    name = (if truthy key_name
                              \<and> fst (rename_key fmt send self (dict_get kvs ''id'') (the key_name) w1)
                                  = Inr True
                            then JStr (the key_name) else dict_get kvs ''name''),
                    password = dict_get kvs ''password'', port = dict_get kvs ''port'',
                    method = dict_get kvs ''method'', access_url = dict_get kvs ''accessUrl'',
                    used_bytes = JInt 0\<rparr>"
    unfolding create_key_fst [where send = send and self = self, OF post]
    by (auto simp add: and_then_def response_json_def create_key_record_JObj rename_key_outcome
          split: if_splits)
  with st b key show ?thesis by blast
qed

lemma create_key_returns:
  assumes post: "send (requests_post (api_url self @ ''/access-keys/'')) w = (response, w1)"
    and "status_code response = 201" "json_body response = Some (JObj kvs)"
  shows "\<exists>k. fst (create_key fmt send self key_name w) = Inr k"
  unfolding create_key_fst [where send = send and self = self, OF post]
  using assms(2,3)
  by (simp add: and_then_def response_json_def create_key_record_JObj rename_key_outcome)

lemma create_key_ignores_metrics:
  assumes same: "\<And>req s. url req \<noteq> api_url self @ ''/metrics/transfer'' \<Longrightarrow> send' req s = send req s"
  shows "create_key fmt send' self key_name w = create_key fmt send self key_name w"
proof -
  have p: "send' (requests_post (api_url self @ ''/access-keys/'')) s =
           send (requests_post (api_url self @ ''/access-keys/'')) s" for s
    by (rule same) (simp add: requests_post_def)
  have r: "send' (requests_put (api_url self @ ''/access-keys/'' @ fmt kid @ ''/name'') pl) s =
           send (requests_put (api_url self @ ''/access-keys/'' @ fmt kid @ ''/name'') pl) s"
    for kid pl s
    by (rule same) (simp add: requests_put_def)
  have rn: "rename_key fmt send' self kid nm s = rename_key fmt send self kid nm s" for kid nm s
    unfolding rename_key_def r ..
  show ?thesis unfolding create_key_def p rn ..
qed

lemma create_server_post:
  "create_server st m (requests_post (api_url example_client @ ''/access-keys/'')) () =
     (created_response, ())"
  by (simp add: create_server_def route_def requests_post_def example_client_def)

lemma create_server_rename:
  "create_server st m (requests_put (api_url example_client @ ''/access-keys/'' @
       fmt_example (JStr ''7'') @ ''/name'') pl) () = (\<lparr>status_code = st, json_body = None\<rparr>, ())"
  by (simp add: create_server_def route_def requests_put_def example_client_def fmt_example_def)

lemma create_server_rename_key:
  "fst (rename_key fmt_example (create_server st m) example_client (JStr ''7'') nm ()) =
     Inr (st = 204)"
  unfolding rename_key_outcome create_server_rename by simp

lemma create_server_create_key:
  "fst (create_key fmt_example (create_server st m) example_client key_name ()) =
     Inr (if truthy key_name \<and> st = 204 then created_key\<lparr>name := JStr (the key_name)\<rparr>
          else created_key)"
  unfolding create_key_fst [where send = "create_server st m" and self = example_client,
      OF create_server_post]
  by (simp add: created_response_def created_fields_def created_key_def and_then_def
        response_json_def create_key_record_JObj dict_get_def create_server_rename_key)

lemma create_server_metrics_only:
  assumes "url req \<noteq> api_url example_client @ ''/metrics/transfer''"
  shows "create_server st m' req s = create_server st m req s"
  using assms by (simp add: create_server_def route_def example_client_def)

text \<open>
  C3. A key that \<^verbatim>\<open>create_key\<close> returns has \<open>used_bytes\<close> 0, and it is returned only on
  status 201; on 201 with a body that is a JSON object the call does return a key; on any
  other status it raises "Unable to create key". The outcome does not depend on what the
  server would answer to a request for \<^verbatim>\<open>metrics/transfer\<close>: no such request is made.
\<close>

theorem create_key_used_bytes:
  assumes post: "send (requests_post (api_url self @ ''/access-keys/'')) w = (response, w1)"
  shows "(fst (create_key fmt send self key_name w) = Inr k
            \<longrightarrow> used_bytes k = JInt 0 \<and> status_code response = 201)
       \<and> (status_code response = 201 \<and> json_body response = Some (JObj kvs)
            \<longrightarrow> (\<exists>k'. fst (create_key fmt send self key_name w) = Inr k'
                      \<and> used_bytes k' = JInt 0))
       \<and> (status_code response \<noteq> 201
            \<longrightarrow> fst (create_key fmt send self key_name w)
                  = Inl (OutlineServerErrorException ''Unable to create key''))
       \<and> ((\<forall>req s. url req \<noteq> api_url self @ ''/metrics/transfer'' \<longrightarrow> send' req s = send req s)
            \<longrightarrow> create_key fmt send' self key_name w = create_key fmt send self key_name w)"
proof -
  have a: "used_bytes k = JInt 0 \<and> status_code response = 201"
    if "fst (create_key fmt send self key_name w) = Inr k"
    using create_key_Inr [OF post that] by auto
  have b: "\<exists>k'. fst (create_key fmt send self key_name w) = Inr k' \<and> used_bytes k' = JInt 0"
    if "status_code response = 201" "json_body response = Some (JObj kvs)"
  proof -
    from create_key_returns [where send = send and self = self, OF post that]
    obtain k' where k': "fst (create_key fmt send self key_name w) = Inr k'" by blast
    from create_key_Inr [OF post k'] have "used_bytes k' = JInt 0" by auto
    with k' show ?thesis by blast
  qed
  have c: "fst (create_key fmt send self key_name w)
      = Inl (OutlineServerErrorException ''Unable to create key'')"
    if "status_code response \<noteq> 201"
    unfolding create_key_fst [where send = send and self = self, OF post] using that by simp
  have d: "create_key fmt send' self key_name w = create_key fmt send self key_name w"
    if "\<forall>req s. url req \<noteq> api_url self @ ''/metrics/transfer'' \<longrightarrow> send' req s = send req s"
    using that by (intro create_key_ignores_metrics) blast
  from a b c d show ?thesis by blast
qed

text \<open>
  A key created while the metrics endpoint reports 5000 bytes for it, and while the
  metrics endpoint is out of order.
\<close>

theorem create_key_used_bytes_witness:
  "fst (create_key fmt_example (create_server 204 metrics_created_response) example_client None ())
     = Inr created_key
   \<and> used_bytes created_key = JInt 0
   \<and> create_key fmt_example (create_server 204 \<lparr>status_code = 503, json_body = None\<rparr>)
        example_client None ()
     = create_key fmt_example (create_server 204 metrics_created_response) example_client None ()"
proof -
  have ok: "fst (create_key fmt_example (create_server 204 metrics_created_response)
              example_client None ()) = Inr created_key"
    by (simp add: create_server_create_key truthy_def)
  have same: "\<forall>req s. url req \<noteq> api_url example_client @ ''/metrics/transfer'' \<longrightarrow>
      create_server 204 \<lparr>status_code = 503, json_body = None\<rparr> req s
        = create_server 204 metrics_created_response req s"
    using create_server_metrics_only by blast
  from create_key_used_bytes [where send = "create_server 204 metrics_created_response"
      and self = example_client and w = "()" and fmt = fmt_example and key_name = None
      and k = created_key
      and send' = "create_server 204 \<lparr>status_code = 503, json_body = None\<rparr>",
      OF create_server_post] ok same
  show ?thesis by blast
qed

text \<open>
  C4. When \<^verbatim>\<open>create_key\<close> is given a name (a string that is not empty) and returns a key,
  the rename call returned without raising, and the key is the record built from the
  server's body with one field decided by the rename: the name is the requested name
  when the rename call returned true (its status was 204), and the name of the server's
  body when it returned false. Every other field is the same in both cases. And
  \<^verbatim>\<open>create_key\<close> does return that key: on status 201 with a body that is a JSON object,
  whatever the status of the rename.
\<close>

theorem create_key_requested_name:
  assumes post: "send (requests_post (api_url self @ ''/access-keys/'')) w = (response, w1)"
    and nm: "n \<noteq> []"
  shows "(fst (create_key fmt send self (Some n) w) = Inr k \<longrightarrow>
           (\<exists>kvs renamed.
              json_body response = Some (JObj kvs)
            \<and> fst (rename_key fmt send self (dict_get kvs ''id'') n w1) = Inr renamed
            \<and> renamed = (status_code (fst (send (requests_put
                  (api_url self @ ''/access-keys/'' @ fmt (dict_get kvs ''id'') @ ''/name'')
                  (FilesPayload [(''name'', None, n)])) w1)) = 204)
            \<and> k = \<lparr>key_id = dict_get kvs ''id'',
                    name = (if renamed then JStr n else dict_get kvs ''name''),
                    password = dict_get kvs ''password'', port = dict_get kvs ''port'',
                    method = dict_get kvs ''method'', access_url = dict_get kvs ''accessUrl'',
                    used_bytes = JInt 0\<rparr>))
       \<and> (status_code response = 201 \<and> json_body response = Some (JObj obj) \<longrightarrow>
           fst (create_key fmt send self (Some n) w) =
             Inr \<lparr>key_id = dict_get obj ''id'',
                  name = (if status_code (fst (send (requests_put
                                (api_url self @ ''/access-keys/'' @ fmt (dict_get obj ''id'')
                                   @ ''/name'')
                                (FilesPayload [(''name'', None, n)])) w1)) = 204
                          then JStr n else dict_get obj ''name''),
                  password = dict_get obj ''password'', port = dict_get obj ''port'',
                  method = dict_get obj ''method'',
                  access_url = dict_get obj ''accessUrl'',
                  used_bytes = JInt 0\<rparr>)"
proof -
  have a: "\<exists>kvs renamed.
              json_body response = Some (JObj kvs)
            \<and> fst (rename_key fmt send self (dict_get kvs ''id'') n w1) = Inr renamed
            \<and> renamed = (status_code (fst (send (requests_put
                  (api_url self @ ''/access-keys/'' @ fmt (dict_get kvs ''id'') @ ''/name'')
                  (FilesPayload [(''name'', None, n)])) w1)) = 204)
            \<and> k = \<lparr>key_id = dict_get kvs ''id'',
                    name = (if renamed then JStr n else dict_get kvs ''name''),
                    password = dict_get kvs ''password'', port = dict_get kvs ''port'',
                    method = dict_get kvs ''method'', access_url = dict_get kvs ''accessUrl'',
                    used_bytes = JInt 0\<rparr>"
    if ok: "fst (create_key fmt send self (Some n) w) = Inr k"
  proof -
    from create_key_Inr [OF post ok] nm obtain kvs where b: "json_body response = Some (JObj kvs)"
      and k: "k = \<lparr>key_id = dict_get kvs ''id'',
                   name = (if fst (rename_key fmt send self (dict_get kvs ''id'') n w1) = Inr True
                           then JStr n else dict_get kvs ''name''),
                   password = dict_get kvs ''password'', port = dict_get kvs ''port'',
                   method = dict_get kvs ''method'', access_url = dict_get kvs ''accessUrl'',
                   used_bytes = JInt 0\<rparr>"
      by (auto simp add: truthy_def)
    let ?renamed = "status_code (fst (send (requests_put
                 (api_url self @ ''/access-keys/'' @ fmt (dict_get kvs ''id'') @ ''/name'')
                 (FilesPayload [(''name'', None, n)])) w1)) = 204"
    have r: "fst (rename_key fmt send self (dict_get kvs ''id'') n w1) = Inr ?renamed"
      by (rule rename_key_outcome)
    from k have "k = \<lparr>key_id = dict_get kvs ''id'',
                   name = (if ?renamed then JStr n else dict_get kvs ''name''),
                   password = dict_get kvs ''password'', port = dict_get kvs ''port'',
                   method = dict_get kvs ''method'', access_url = dict_get kvs ''accessUrl'',
                   used_bytes = JInt 0\<rparr>"
      unfolding r by simp
    with b r show ?thesis by blast
  qed
  have b: "fst (create_key fmt send self (Some n) w) =
             Inr \<lparr>key_id = dict_get obj ''id'',
                  name = (if status_code (fst (send (requests_put
                                (api_url self @ ''/access-keys/'' @ fmt (dict_get obj ''id'')
                                   @ ''/name'')
                                (FilesPayload [(''name'', None, n)])) w1)) = 204
                          then JStr n else dict_get obj ''name''),
                  password = dict_get obj ''password'', port = dict_get obj ''port'',
                  method = dict_get obj ''method'',
                  access_url = dict_get obj ''accessUrl'',
                  used_bytes = JInt 0\<rparr>"
    if "status_code response = 201" "json_body response = Some (JObj obj)"
    unfolding create_key_fst [where send = send and self = self, OF post]
    using that nm
    by (simp add: and_then_def response_json_def create_key_record_JObj rename_key_outcome
          truthy_def)
  from a b show ?thesis by blast
qed

text \<open>
  A key created as \<^verbatim>\<open>bob\<close>: on a server that accepts the rename with 204 the record
  returned is named \<^verbatim>\<open>bob\<close>, on one that refuses it with 500 it keeps the empty name of
  the server's body; the two records differ in nothing else.
\<close>

theorem create_key_requested_name_witness:
  "fst (create_key fmt_example (create_server 204 metrics_created_response) example_client
          (Some ''bob'') ()) =
     Inr \<lparr>key_id = JStr ''7'', name = JStr ''bob'', password = JStr ''p'', port = JInt 8388,
          method = JStr ''aes-128-gcm'', access_url = JStr ''ss://...'', used_bytes = JInt 0\<rparr>
   \<and> fst (create_key fmt_example (create_server 500 metrics_created_response) example_client
          (Some ''bob'') ()) =
     Inr \<lparr>key_id = JStr ''7'', name = JStr '''', password = JStr ''p'', port = JInt 8388,
          method = JStr ''aes-128-gcm'', access_url = JStr ''ss://...'', used_bytes = JInt 0\<rparr>
   \<and> (\<exists>kvs renamed.
         json_body created_response = Some (JObj kvs)
       \<and> fst (rename_key fmt_example (create_server 500 metrics_created_response)
              example_client (dict_get kvs ''id'') ''bob'' ()) = Inr renamed
       \<and> \<not> renamed)"
proof -
  have nm: "''bob'' \<noteq> []" by simp
  have body: "status_code created_response = 201
      \<and> json_body created_response = Some (JObj created_fields)"
    by (simp add: created_response_def)
  have i: "dict_get created_fields ''id'' = JStr ''7''"
    by (simp add: created_fields_def dict_get_def)
  have accepted: "fst (create_key fmt_example (create_server 204 metrics_created_response)
        example_client (Some ''bob'') ()) =
     Inr \<lparr>key_id = JStr ''7'', name = JStr ''bob'', password = JStr ''p'', port = JInt 8388,
          method = JStr ''aes-128-gcm'', access_url = JStr ''ss://...'', used_bytes = JInt 0\<rparr>"
    using create_key_requested_name [where send = "create_server 204 metrics_created_response"
        and self = example_client and w = "()" and fmt = fmt_example and n = "''bob''"
        and obj = created_fields, OF create_server_post nm, THEN conjunct2] body
    unfolding i create_server_rename
    by (simp add: created_fields_def dict_get_def)
  have refused: "fst (create_key fmt_example (create_server 500 metrics_created_response)
        example_client (Some ''bob'') ()) =
     Inr \<lparr>key_id = JStr ''7'', name = JStr '''', password = JStr ''p'', port = JInt 8388,
          method = JStr ''aes-128-gcm'', access_url = JStr ''ss://...'', used_bytes = JInt 0\<rparr>"
    using create_key_requested_name [where send = "create_server 500 metrics_created_response"
        and self = example_client and w = "()" and fmt = fmt_example and n = "''bob''"
        and obj = created_fields, OF create_server_post nm, THEN conjunct2] body
    unfolding i create_server_rename
    by (simp add: created_fields_def dict_get_def)
  from create_key_requested_name [where send = "create_server 500 metrics_created_response"
      and self = example_client and w = "()" and fmt = fmt_example and n = "''bob''",
      OF create_server_post nm, THEN conjunct1, rule_format, OF refused]
  obtain kvs renamed where b: "json_body created_response = Some (JObj kvs)"
    and r: "fst (rename_key fmt_example (create_server 500 metrics_created_response)
              example_client (dict_get kvs ''id'') ''bob'' ()) = Inr renamed"
    by blast
  from b have kvs: "kvs = created_fields" by (simp add: created_response_def)
  from r have "\<not> renamed"
    unfolding kvs i create_server_rename_key by simp
  with b r accepted refused show ?thesis by blast
qed

section \<open>The fields of a key\<close>

text \<open>
  A key created as \<^verbatim>\<open>bob\<close> on a server that accepts the rename: the name the server sent
  in the body of the creation is the empty string, and the record's name is \<^verbatim>\<open>bob\<close>.
\<close>

theorem create_key_renamed_counterexample:
  "json_body created_response = Some (JObj created_fields)
   \<and> fst (create_key fmt_example (create_server 204 metrics_created_response) example_client
          (Some ''bob'') ()) = Inr (created_key\<lparr>name := JStr ''bob''\<rparr>)
   \<and> name (created_key\<lparr>name := JStr ''bob''\<rparr>) \<noteq> dict_get created_fields ''name''"
  by (simp add: create_server_create_key truthy_def created_response_def created_fields_def
        dict_get_def)

text \<open>
  C10, as the code has it. Every record that \<^verbatim>\<open>get_keys\<close> returns comes from an entry of
  \<^verbatim>\<open>accessKeys\<close> that is an object, and its identifier, name, password, port, method and
  access URL are the values the entry has under \<^verbatim>\<open>id\<close>, \<^verbatim>\<open>name\<close>, \<^verbatim>\<open>password\<close>, \<^verbatim>\<open>port\<close>,
  \<^verbatim>\<open>method\<close> and \<^verbatim>\<open>accessUrl\<close>, of whatever JSON type, unconverted (\<^verbatim>\<open>None\<close> for a key
  that is not there). The same holds of the record that \<^verbatim>\<open>create_key\<close> returns and the
  body of the creation, but for the name when a name was requested and the rename call
  returned true: then the name is the requested one.
\<close>

theorem keys_carry_server_values:
  assumes s1: "send (requests_get (api_url self @ ''/access-keys/'')) w = (response, w1)"
    and s2: "send (requests_get (api_url self @ ''/metrics/transfer'')) w1 = (response_metrics, w2)"
    and post: "send (requests_post (api_url self @ ''/access-keys/'')) v = (created, v1)"
  shows "(fst (get_keys send self w) = Inr result \<longrightarrow>
            (\<exists>body keys.
               json_body response = Some body
             \<and> and_then (py_get body ''accessKeys'') py_iter = Inr keys
             \<and> list_all2 (\<lambda>key k. \<exists>kvs.
                    key = JObj kvs
                  \<and> key_id k = dict_get kvs ''id'' \<and> name k = dict_get kvs ''name''
                  \<and> password k = dict_get kvs ''password'' \<and> port k = dict_get kvs ''port''
                  \<and> method k = dict_get kvs ''method''
                  \<and> access_url k = dict_get kvs ''accessUrl'')
                 keys result))
       \<and> (fst (create_key fmt send self key_name v) = Inr k \<longrightarrow>
            (\<exists>kvs.
               json_body created = Some (JObj kvs)
             \<and> key_id k = dict_get kvs ''id''
             \<and> name k =
                 (if truthy key_name
                     \<and> fst (rename_key fmt send self (dict_get kvs ''id'') (the key_name) v1)
                         = Inr True
                  then JStr (the key_name) else dict_get kvs ''name'')
             \<and> password k = dict_get kvs ''password'' \<and> port k = dict_get kvs ''port''
             \<and> method k = dict_get kvs ''method''
             \<and> access_url k = dict_get kvs ''accessUrl''))"
proof -
  have a: "\<exists>body keys.
               json_body response = Some body
             \<and> and_then (py_get body ''accessKeys'') py_iter = Inr keys
             \<and> list_all2 (\<lambda>key k. \<exists>kvs.
                    key = JObj kvs
                  \<and> key_id k = dict_get kvs ''id'' \<and> name k = dict_get kvs ''name''
                  \<and> password k = dict_get kvs ''password'' \<and> port k = dict_get kvs ''port''
                  \<and> method k = dict_get kvs ''method''
                  \<and> access_url k = dict_get kvs ''accessUrl'')
                 keys result"
    if ok: "fst (get_keys send self w) = Inr result"
  proof -
    from get_keys_Inr [OF s1 s2 ok] obtain body keys where b: "json_body response = Some body"
      and i: "and_then (py_get body ''accessKeys'') py_iter = Inr keys"
      and l: "list_all2 (\<lambda>key k. get_keys_item response_metrics key = Inr k) keys result"
      by blast
    have "list_all2 (\<lambda>key k. \<exists>kvs.
                    key = JObj kvs
                  \<and> key_id k = dict_get kvs ''id'' \<and> name k = dict_get kvs ''name''
                  \<and> password k = dict_get kvs ''password'' \<and> port k = dict_get kvs ''port''
                  \<and> method k = dict_get kvs ''method''
                  \<and> access_url k = dict_get kvs ''accessUrl'')
                 keys result"
    proof (rule list_all2_mono [OF l])
      fix key k
      assume "get_keys_item response_metrics key = Inr k"
      from get_keys_item_Inr [OF this] obtain kvs where key: "key = JObj kvs"
        and k: "k = \<lparr>key_id = dict_get kvs ''id'', name = dict_get kvs ''name'',
                   password = dict_get kvs ''password'', port = dict_get kvs ''port'',
                   method = dict_get kvs ''method'', access_url = dict_get kvs ''accessUrl'',
                   used_bytes = used_bytes k\<rparr>"
        by blast
      have "key_id k = dict_get kvs ''id'' \<and> name k = dict_get kvs ''name''
                  \<and> password k = dict_get kvs ''password'' \<and> port k = dict_get kvs ''port''
                  \<and> method k = dict_get kvs ''method''
                  \<and> access_url k = dict_get kvs ''accessUrl''"
        by (subst k, simp)+
      with key show "\<exists>kvs.
                    key = JObj kvs
                  \<and> key_id k = dict_get kvs ''id'' \<and> name k = dict_get kvs ''name''
                  \<and> password k = dict_get kvs ''password'' \<and> port k = dict_get kvs ''port''
                  \<and> method k = dict_get kvs ''method''
                  \<and> access_url k = dict_get kvs ''accessUrl''"
        by blast
    qed
    with b i show ?thesis by blast
  qed
  have c: "\<exists>kvs.
               json_body created = Some (JObj kvs)
             \<and> key_id k = dict_get kvs ''id''
             \<and> name k =
                 (if truthy key_name
                     \<and> fst (rename_key fmt send self (dict_get kvs ''id'') (the key_name) v1)
                         = Inr True
                  then JStr (the key_name) else dict_get kvs ''name'')
             \<and> password k = dict_get kvs ''password'' \<and> port k = dict_get kvs ''port''
             \<and> method k = dict_get kvs ''method''
             \<and> access_url k = dict_get kvs ''accessUrl''"
    if ok: "fst (create_key fmt send self key_name v) = Inr k"
  proof -
    from create_key_Inr [OF post ok] obtain kvs where b: "json_body created = Some (JObj kvs)"
      and k: "k = \<lparr>key_id = dict_get kvs ''id'',
                    name = (if truthy key_name
                              \<and> fst (rename_key fmt send self (dict_get kvs ''id'') (the key_name) v1)
                                  = Inr True
                            then JStr (the key_name) else dict_get kvs ''name''),
                    password = dict_get kvs ''password'', port = dict_get kvs ''port'',
                    method = dict_get kvs ''method'', access_url = dict_get kvs ''accessUrl'',
                    used_bytes = JInt 0\<rparr>"
      by blast
    have "key_id k = dict_get kvs ''id''
             \<and> name k =
                 (if truthy key_name
                     \<and> fst (rename_key fmt send self (dict_get kvs ''id'') (the key_name) v1)
                         = Inr True
                  then JStr (the key_name) else dict_get kvs ''name'')
             \<and> password k = dict_get kvs ''password'' \<and> port k = dict_get kvs ''port''
             \<and> method k = dict_get kvs ''method''
             \<and> access_url k = dict_get kvs ''accessUrl''"
      by (subst k, simp)+
    with b show ?thesis by blast
  qed
  from a c show ?thesis by blast
qed

lemma whole_server_keys:
  "whole_server (requests_get (api_url example_client @ ''/access-keys/'')) () =
     (\<lparr>status_code = 200, json_body = Some example_keys_body\<rparr>, ())"
  by (simp add: whole_server_def route_def requests_get_def example_client_def)

lemma whole_server_metrics:
  "whole_server (requests_get (api_url example_client @ ''/metrics/transfer'')) () =
     (\<lparr>status_code = 200, json_body = Some example_metrics_body\<rparr>, ())"
  by (simp add: whole_server_def route_def requests_get_def example_client_def)

lemma whole_server_post:
  "whole_server (requests_post (api_url example_client @ ''/access-keys/'')) () =
     (created_response, ())"
  by (simp add: whole_server_def route_def requests_post_def example_client_def)

lemma whole_server_rename:
  "whole_server (requests_put (api_url example_client @ ''/access-keys/'' @
       fmt_example (JStr ''7'') @ ''/name'') pl) () = (\<lparr>status_code = 204, json_body = None\<rparr>, ())"
  by (simp add: whole_server_def route_def requests_put_def example_client_def fmt_example_def)

lemma whole_server_get_keys:
  "fst (get_keys whole_server example_client ()) = Inr [example_key]"
  by (rule get_keys_example [where send = whole_server and self = example_client,
        OF whole_server_keys whole_server_metrics]) simp_all

lemma whole_server_rename_key:
  "fst (rename_key fmt_example whole_server example_client (JStr ''7'') nm ()) = Inr True"
  unfolding rename_key_outcome whole_server_rename by simp

lemma whole_server_create_key:
  "fst (create_key fmt_example whole_server example_client (Some ''bob'') ()) =
     Inr (created_key\<lparr>name := JStr ''bob''\<rparr>)"
  unfolding create_key_fst [where send = whole_server and self = example_client,
      OF whole_server_post]
  by (simp add: created_response_def created_fields_def created_key_def and_then_def
        response_json_def create_key_record_JObj dict_get_def whole_server_rename_key truthy_def)

text \<open>
  The example's server, listing its key and creating another as \<^verbatim>\<open>bob\<close>: the identifiers
  are the strings \<^verbatim>\<open>"1"\<close> and \<^verbatim>\<open>"7"\<close> of the bodies.
\<close>

theorem keys_carry_server_values_witness:
  "fst (get_keys whole_server example_client ()) = Inr [example_key]
   \<and> fst (create_key fmt_example whole_server example_client (Some ''bob'') ())
       = Inr (created_key\<lparr>name := JStr ''bob''\<rparr>)
   \<and> (\<exists>keys. and_then (py_get example_keys_body ''accessKeys'') py_iter = Inr keys
         \<and> list_all2 (\<lambda>key k. \<exists>kvs. key = JObj kvs \<and> key_id k = dict_get kvs ''id'')
              keys [example_key])
   \<and> key_id example_key = JStr ''1''
   \<and> key_id (created_key\<lparr>name := JStr ''bob''\<rparr>) = dict_get created_fields ''id''
   \<and> key_id (created_key\<lparr>name := JStr ''bob''\<rparr>) = JStr ''7''"
proof -
  note t = keys_carry_server_values [where send = whole_server and self = example_client
      and w = "()" and v = "()" and fmt = fmt_example and key_name = "Some ''bob''"
      and result = "[example_key]" and k = "created_key\<lparr>name := JStr ''bob''\<rparr>",
      OF whole_server_keys whole_server_metrics whole_server_post]
  from t whole_server_get_keys
  obtain keys where i: "and_then (py_get example_keys_body ''accessKeys'') py_iter = Inr keys"
    and l: "list_all2 (\<lambda>key k. \<exists>kvs. key = JObj kvs \<and> key_id k = dict_get kvs ''id''
                  \<and> name k = dict_get kvs ''name''
                  \<and> password k = dict_get kvs ''password'' \<and> port k = dict_get kvs ''port''
                  \<and> method k = dict_get kvs ''method''
                  \<and> access_url k = dict_get kvs ''accessUrl'') keys [example_key]"
    by auto
  have "list_all2 (\<lambda>key k. \<exists>kvs. key = JObj kvs \<and> key_id k = dict_get kvs ''id'')
          keys [example_key]"
    by (rule list_all2_mono [OF l]) blast
  moreover from t whole_server_create_key
  have "key_id (created_key\<lparr>name := JStr ''bob''\<rparr>) = dict_get created_fields ''id''"
    by (auto simp add: created_response_def)
  moreover have "key_id example_key = JStr ''1''" by (simp add: example_key_def)
  moreover have "key_id (created_key\<lparr>name := JStr ''bob''\<rparr>) = JStr ''7''"
    by (simp add: created_key_def)
  ultimately show ?thesis
    using i whole_server_get_keys whole_server_create_key by blast
qed

end
